theory Spec2Isabelle
  imports Main "HOL-Library.Sublist"
begin

section \<open>Outbound transport: src/handlers/RabbitMQSender.ts\<close>

subsection \<open>Data\<close>

text \<open>
  JSON values as \<^verbatim>\<open>JSON.parse\<close> produces them. An object is the list of its
  properties (duplicate keys already resolved by the parser).
\<close>

datatype json =
    JNull
  | JBool bool
  | JNum int
  | JStr string
  | JArr "json list"
  | JObj "(string \<times> json) list"

text \<open>The outbound envelope \<^verbatim>\<open>DekuSMSMessage {sid, id, to, text}\<close>.\<close>

record DekuSMSMessage =
  msg_sid :: string
  msg_id :: string
  msg_to :: string
  msg_text :: string

record RabbitMQConfig =
  rabbitmqUrl :: string
  queueName :: string
  callbackQueue :: string
  reconnectDelayMs :: "nat option"
  maxReconnectAttempts :: "nat option"

record SendResult =
  success :: bool
  messageId :: "string option"
  error :: "string option"

text \<open>
  A delivery callback is a closure of the caller; the model keeps its identity. Whether
  an invocation returns or throws is decided by the caller's code, so it is a parameter
  of the receipt handler below.
\<close>

type_synonym DeliveryCallback = nat

text \<open>A message delivered by the broker on the callback queue: its body and its tag.\<close>

record ConsumeMessage =
  msg_content :: string
  deliveryTag :: nat

text \<open>The three \<^verbatim>\<open>setTimeout\<close> bodies of the class.\<close>

datatype timer_action =
    ReconnectTimer
  | CallbackExpiry string
  | ReceiptCleanup string

text \<open>
  Everything the sender does to the outside world (the amqplib client and the timers of
  the event loop), in the order it does it. Console output is not recorded.
\<close>

datatype event =
    AmqpConnect string
  | CreateChannel
  | AssertQueue string
  | Consume string
  | SendToQueue string DekuSMSMessage
  | OnceDrain
  | Ack ConsumeMessage
  | Nack ConsumeMessage bool bool
  | InvokeCallback DeliveryCallback json
  | SetTimeout nat timer_action
  | ClearTimeout timer_action
  | ChannelClose
  | ConnectionClose

text \<open>
  The private fields of the class. \<open>connectionModel\<close> and \<open>channel\<close> say whether the
  field holds an object or \<^verbatim>\<open>undefined\<close>; \<open>reconnectTimer\<close> whether a timer is
  pending. \<open>deliveryCallbacks\<close> is the \<^verbatim>\<open>Map<string, DeliveryCallback>\<close>, of which the
  code uses get, set, has, delete, clear and size only.
\<close>

record RabbitMQSender =
  config :: RabbitMQConfig
  connectionModel :: bool
  channel :: bool
  isConnected :: bool
  isConnecting :: bool
  reconnectAttempts :: nat
  deliveryCallbacks :: "string \<rightharpoonup> DeliveryCallback"
  reconnectTimer :: bool

text \<open>The constructor: defaults 5000 and 10, overridden by the fields the caller gives.\<close>

definition new_RabbitMQSender :: "RabbitMQConfig \<Rightarrow> RabbitMQSender" where
  "new_RabbitMQSender cfg =
     \<lparr> config = cfg
         \<lparr> reconnectDelayMs :=
             Some (case reconnectDelayMs cfg of None \<Rightarrow> 5000 | Some d \<Rightarrow> d),
           maxReconnectAttempts :=
             Some (case maxReconnectAttempts cfg of None \<Rightarrow> 10 | Some n \<Rightarrow> n) \<rparr>,
       connectionModel = False,
       channel = False,
       isConnected = False,
       isConnecting = False,
       reconnectAttempts = 0,
       deliveryCallbacks = Map.empty,
       reconnectTimer = False \<rparr>"

text \<open>\<^verbatim>\<open>x || d\<close> on an optional number: \<^verbatim>\<open>undefined\<close> and 0 are falsy.\<close>

definition or_default :: "nat option \<Rightarrow> nat \<Rightarrow> nat" where
  "or_default x d = (case x of None \<Rightarrow> d | Some n \<Rightarrow> if n = 0 then d else n)"

subsection \<open>Reconnection\<close>

definition scheduleReconnect :: "RabbitMQSender \<Rightarrow> RabbitMQSender \<times> event list" where
  "scheduleReconnect st =
     (if reconnectTimer st then (st, [])
      else if reconnectAttempts st \<ge> or_default (maxReconnectAttempts (config st)) 10
        then (st, [])
      else
        (st \<lparr> reconnectAttempts := reconnectAttempts st + 1, reconnectTimer := True \<rparr>,
         [SetTimeout (or_default (reconnectDelayMs (config st)) 5000) ReconnectTimer]))"

definition handleDisconnect :: "RabbitMQSender \<Rightarrow> RabbitMQSender \<times> event list" where
  "handleDisconnect st =
     scheduleReconnect (st \<lparr> isConnected := False, channel := False, connectionModel := False \<rparr>)"

text \<open>
  What the broker does to one connection attempt: every awaited call of \<^verbatim>\<open>connect()\<close>
  may reject, with a message.
\<close>

datatype connect_stage =
    AtConnect
  | AtCreateChannel
  | AtAssertQueue
  | AtAssertCallbackQueue
  | AtConsume

datatype connect_outcome =
    ConnectSucceeds
  | ConnectFails connect_stage string

text \<open>The awaited calls of the \<^verbatim>\<open>try\<close> block of \<^verbatim>\<open>connect()\<close>, in order; an attempt
  that fails at a stage has made the calls up to and including that stage's.\<close>

definition connect_calls :: "RabbitMQConfig \<Rightarrow> event list" where
  "connect_calls cfg =
     [AmqpConnect (rabbitmqUrl cfg), CreateChannel, AssertQueue (queueName cfg),
      AssertQueue (callbackQueue cfg), Consume (callbackQueue cfg)]"

fun stage_index :: "connect_stage \<Rightarrow> nat" where
  "stage_index AtConnect = 1"
| "stage_index AtCreateChannel = 2"
| "stage_index AtAssertQueue = 3"
| "stage_index AtAssertCallbackQueue = 4"
| "stage_index AtConsume = 5"

definition attempted :: "RabbitMQConfig \<Rightarrow> connect_stage \<Rightarrow> event list" where
  "attempted cfg stage = take (stage_index stage) (connect_calls cfg)"

text \<open>
  \<^verbatim>\<open>connect()\<close>. The result is \<open>Inr ()\<close> when the promise resolves and \<open>Inl msg\<close> when
  it rejects with \<^verbatim>\<open>Error(msg)\<close>. A failure after \<^verbatim>\<open>amqplib.connect\<close> resolved leaves
  \<open>connectionModel\<close> assigned, one after \<^verbatim>\<open>createChannel\<close> resolved leaves \<open>channel\<close>
  assigned too.
\<close>

definition connect :: "RabbitMQSender \<Rightarrow> connect_outcome \<Rightarrow> RabbitMQSender \<times> (string + unit) \<times> event list" where
  "connect st oc =
     (if isConnected st \<or> isConnecting st then (st, Inr (), [])
      else
        (case oc of
           ConnectSucceeds \<Rightarrow>
             (st \<lparr> connectionModel := True, channel := True, isConnected := True,
                   isConnecting := False, reconnectAttempts := 0 \<rparr>,
              Inr (),
              attempted (config st) AtConsume)
         | ConnectFails stage msg \<Rightarrow>
             (let st1 = st \<lparr> connectionModel := (connectionModel st \<or> stage \<noteq> AtConnect),
                             channel := (channel st \<or> (stage \<noteq> AtConnect \<and> stage \<noteq> AtCreateChannel)),
                             isConnecting := False \<rparr>;
                  (st2, ev) = scheduleReconnect st1
              in (st2, Inl (''Failed to connect to RabbitMQ: '' @ msg),
                  attempted (config st) stage @ ev))))"

text \<open>
  The body of the reconnect timer; \<open>None\<close> when no timer is pending (nothing fires).
  The rejection of \<^verbatim>\<open>connect()\<close> is caught and logged there.
\<close>

definition fireReconnectTimer :: "RabbitMQSender \<Rightarrow> connect_outcome \<Rightarrow> (RabbitMQSender \<times> event list) option" where
  "fireReconnectTimer st oc =
     (if \<not> reconnectTimer st then None
      else (let (st', r, ev) = connect (st \<lparr> reconnectTimer := False \<rparr>) oc in Some (st', ev)))"

subsection \<open>Sending\<close>

definition isDigit :: "char \<Rightarrow> bool" where
  "isDigit c = (c \<in> set ''0123456789'')"

definition isDigit19 :: "char \<Rightarrow> bool" where
  "isDigit19 c = (c \<in> set ''123456789'')"

text \<open>\<^verbatim>\<open>/^\+[1-9]\d{1,14}$/.test(phoneNumber)\<close>\<close>

fun validateE164 :: "string \<Rightarrow> bool" where
  "validateE164 (p # d # ds) =
     (p = CHR ''+'' \<and> isDigit19 d \<and> 1 \<le> length ds \<and> length ds \<le> 14 \<and> list_all isDigit ds)"
| "validateE164 _ = False"

text \<open>
  The format in the specification's words: a plus sign followed by 2 to 15 digits, the
  first of them 1 to 9.
\<close>

definition e164_spec :: "string \<Rightarrow> bool" where
  "e164_spec s =
     (case s of
        [] \<Rightarrow> False
      | p # digits \<Rightarrow>
          p = CHR ''+'' \<and> 2 \<le> length digits \<and> length digits \<le> 15 \<and>
          list_all isDigit digits \<and> isDigit19 (hd digits))"

datatype publish_outcome =
    PublishAccepted
  | PublishBufferFull
  | PublishThrows string

text \<open>
  What one call of \<^verbatim>\<open>sendSMS\<close> meets outside the class: the broker's answer should the
  call have to connect, the two values \<^verbatim>\<open>randomUUID()\<close> returns (the second is drawn
  only when no sid is given), and what \<^verbatim>\<open>channel.sendToQueue\<close> does.
\<close>

record send_env =
  connectOutcome :: connect_outcome
  uuid1 :: string
  uuid2 :: string
  publishOutcome :: publish_outcome

text \<open>
  The promise \<^verbatim>\<open>sendSMS\<close> returns: settled with a result, or pending on the channel's
  \<^verbatim>\<open>'drain'\<close> event with the result it will then resolve to.
\<close>

datatype send_return =
    Settled SendResult
  | AwaitingDrain SendResult

fun drain :: "send_return \<Rightarrow> send_return" where
  "drain (AwaitingDrain r) = Settled r"
| "drain (Settled r) = Settled r"

definition failure :: "string \<Rightarrow> SendResult" where
  "failure msg = \<lparr> success = False, messageId = None, error = Some msg \<rparr>"

definition sent_ok :: "string \<Rightarrow> SendResult" where
  "sent_ok m = \<lparr> success = True, messageId = Some m, error = None \<rparr>"

text \<open>\<^verbatim>\<open>sid || randomUUID()\<close>: an absent and an empty sid are both falsy.\<close>

definition messageSid_of :: "send_env \<Rightarrow> string option \<Rightarrow> string" where
  "messageSid_of env sid =
     (case sid of None \<Rightarrow> uuid2 env | Some s \<Rightarrow> if s = [] then uuid2 env else s)"

definition envelope :: "send_env \<Rightarrow> string \<Rightarrow> string \<Rightarrow> string option \<Rightarrow> DekuSMSMessage" where
  "envelope env to body sid =
     \<lparr> msg_sid = messageSid_of env sid, msg_id = uuid1 env, msg_to = to, msg_text = body \<rparr>"

text \<open>
  The \<^verbatim>\<open>try\<close> block of \<^verbatim>\<open>sendSMS\<close> with its \<^verbatim>\<open>catch\<close>: register the callback, publish,
  then return, wait for drain, or clean up after an exception.
\<close>

definition publish :: "RabbitMQSender \<Rightarrow> send_env \<Rightarrow> string \<Rightarrow> string \<Rightarrow> string option \<Rightarrow> DeliveryCallback option \<Rightarrow> RabbitMQSender \<times> send_return \<times> event list" where
  "publish st env to body sid onDelivery =
     (let messageSid = messageSid_of env sid;
          (st1, ev1) =
            (case onDelivery of
               None \<Rightarrow> (st, [])
             | Some cb \<Rightarrow>
                 (st \<lparr> deliveryCallbacks := (deliveryCallbacks st)(messageSid \<mapsto> cb) \<rparr>,
                  [SetTimeout 300000 (CallbackExpiry messageSid)]));
          ev2 = ev1 @ [SendToQueue (queueName (config st)) (envelope env to body sid)]
      in case publishOutcome env of
           PublishThrows msg \<Rightarrow>
             ((case onDelivery of
                 None \<Rightarrow> st1
               | Some cb \<Rightarrow> st1 \<lparr> deliveryCallbacks := (deliveryCallbacks st1)(messageSid := None) \<rparr>),
              Settled (failure msg), ev2)
         | PublishBufferFull \<Rightarrow> (st1, AwaitingDrain (sent_ok messageSid), ev2 @ [OnceDrain])
         | PublishAccepted \<Rightarrow> (st1, Settled (sent_ok messageSid), ev2))"

definition sendSMS :: "RabbitMQSender \<Rightarrow> send_env \<Rightarrow> string \<Rightarrow> string \<Rightarrow> string option \<Rightarrow> DeliveryCallback option \<Rightarrow> RabbitMQSender \<times> send_return \<times> event list" where
  "sendSMS st env to body sid onDelivery =
     (if \<not> validateE164 to then
        (st,
         Settled (failure (''Invalid phone number format: '' @ to @
           ''. Must be E.164 format (e.g., +15551234567)'')),
         [])
      else
        (let (st1, r1, ev1) =
               (if \<not> isConnected st then connect st (connectOutcome env) else (st, Inr (), []))
         in case r1 of
              Inl e \<Rightarrow> (st1, Settled (failure (''Not connected to RabbitMQ: '' @ e)), ev1)
            | Inr u \<Rightarrow>
                if \<not> channel st1 then
                  (st1, Settled (failure ''RabbitMQ channel not available''), ev1)
                else
                  (let (st2, r2, ev2) = publish st1 env to body sid onDelivery
                   in (st2, r2, ev1 @ ev2))))"

subsection \<open>Status and shutdown\<close>

record SenderStatus =
  connected :: bool
  statusReconnectAttempts :: nat
  pendingCallbacks :: nat

definition getStatus :: "RabbitMQSender \<Rightarrow> SenderStatus" where
  "getStatus st =
     \<lparr> connected = isConnected st,
       statusReconnectAttempts = reconnectAttempts st,
       pendingCallbacks = card (dom (deliveryCallbacks st)) \<rparr>"

definition isReady :: "RabbitMQSender \<Rightarrow> bool" where
  "isReady st = (isConnected st \<and> channel st)"

text \<open>
  \<^verbatim>\<open>close()\<close>. Each of the two awaited \<^verbatim>\<open>close\<close> calls may reject; the
  \<^verbatim>\<open>catch\<close> logs the error and returns, skipping the rest of the \<^verbatim>\<open>try\<close> block. The
  promise of \<^verbatim>\<open>close()\<close> itself always resolves (\<open>Inr ()\<close>).

  A connection whose \<^verbatim>\<open>close()\<close> resolves emits \<^verbatim>\<open>'close'\<close> once the closing handshake
  is done, and the listener \<^verbatim>\<open>connect()\<close> registered on it runs \<open>handleDisconnect\<close>;
  the two assignments that follow the await repeat what the listener already did to the
  fields. (The channel's \<^verbatim>\<open>'close'\<close> listener only logs.)
\<close>

datatype close_outcome =
    CloseResolves
  | CloseRejects string

record close_env =
  channelClose :: close_outcome
  connectionClose :: close_outcome

definition close_connection :: "RabbitMQSender \<Rightarrow> close_env \<Rightarrow> event list \<Rightarrow> RabbitMQSender \<times> (string + unit) \<times> event list" where
  "close_connection st env ev =
     (if connectionModel st then
        (case connectionClose env of
           CloseRejects msg \<Rightarrow> (st, Inr (), ev @ [ConnectionClose])
         | CloseResolves \<Rightarrow>
             (let (st1, ev1) = handleDisconnect st
              in (st1 \<lparr> connectionModel := False, isConnected := False \<rparr>, Inr (),
                  ev @ [ConnectionClose] @ ev1)))
      else (st \<lparr> isConnected := False \<rparr>, Inr (), ev))"

definition close :: "RabbitMQSender \<Rightarrow> close_env \<Rightarrow> RabbitMQSender \<times> (string + unit) \<times> event list" where
  "close st env =
     (let (st1, ev1) =
            (if reconnectTimer st
             then (st \<lparr> reconnectTimer := False \<rparr>, [ClearTimeout ReconnectTimer])
             else (st, []));
          st2 = st1 \<lparr> deliveryCallbacks := Map.empty \<rparr>
      in if channel st2 then
           (case channelClose env of
              CloseRejects msg \<Rightarrow> (st2, Inr (), ev1 @ [ChannelClose])
            | CloseResolves \<Rightarrow>
                close_connection (st2 \<lparr> channel := False \<rparr>) env (ev1 @ [ChannelClose]))
         else close_connection st2 env ev1)"

subsection \<open>Delivery receipts\<close>

text \<open>
  The consumer callback of \<^verbatim>\<open>setupDeliveryReceiptListener\<close>. Two things it calls are
  not code of the class and are parameters: \<^verbatim>\<open>JSON.parse\<close> (\<open>None\<close> when it throws) and
  the caller's callback (\<open>True\<close> when the invocation returns, \<open>False\<close> when it throws).
\<close>

record receipt_env =
  json_parse :: "string \<Rightarrow> json option"
  callback_returns :: "DeliveryCallback \<Rightarrow> json \<Rightarrow> bool"

text \<open>
  Reading \<^verbatim>\<open>receipt.sid\<close>: a TypeError on \<^verbatim>\<open>null\<close>, \<^verbatim>\<open>undefined\<close> on a value
  without that property.
\<close>

datatype property =
    TypeError
  | Undefined
  | Prop json

fun get_sid :: "json \<Rightarrow> property" where
  "get_sid JNull = TypeError"
| "get_sid (JObj ps) = (case map_of ps ''sid'' of None \<Rightarrow> Undefined | Some v \<Rightarrow> Prop v)"
| "get_sid v = Undefined"

text \<open>\<^verbatim>\<open>deliveryCallbacks.get(receipt.sid)\<close>: the keys are strings, only a string finds one.\<close>

fun lookup_callback :: "(string \<rightharpoonup> DeliveryCallback) \<Rightarrow> property \<Rightarrow> (string \<times> DeliveryCallback) option" where
  "lookup_callback cbs (Prop (JStr s)) = (case cbs s of None \<Rightarrow> None | Some cb \<Rightarrow> Some (s, cb))"
| "lookup_callback cbs p = None"

text \<open>\<^verbatim>\<open>this.channel?.ack(msg)\<close> and \<^verbatim>\<open>this.channel?.nack(msg, false, true)\<close>.\<close>

definition ack :: "RabbitMQSender \<Rightarrow> ConsumeMessage \<Rightarrow> event list" where
  "ack st msg = (if channel st then [Ack msg] else [])"

definition nack :: "RabbitMQSender \<Rightarrow> ConsumeMessage \<Rightarrow> event list" where
  "nack st msg = (if channel st then [Nack msg False True] else [])"

text \<open>
  The handler assigns no field of the sender (removal happens in the timer it sets), so
  its model returns the events only. Its whole body after the null check is inside
  \<^verbatim>\<open>try\<close>/\<^verbatim>\<open>catch\<close>: no exception leaves it.
\<close>

definition onReceiptMessage :: "RabbitMQSender \<Rightarrow> receipt_env \<Rightarrow> ConsumeMessage option \<Rightarrow> event list" where
  "onReceiptMessage st env m =
     (case m of
        None \<Rightarrow> []
      | Some msg \<Rightarrow>
          (case json_parse env (msg_content msg) of
             None \<Rightarrow> nack st msg
           | Some receipt \<Rightarrow>
               (case get_sid receipt of
                  TypeError \<Rightarrow> nack st msg
                | p \<Rightarrow>
                    (case lookup_callback (deliveryCallbacks st) p of
                       Some (s, cb) \<Rightarrow>
                         if callback_returns env cb receipt
                         then [InvokeCallback cb receipt, SetTimeout 60000 (ReceiptCleanup s)] @ ack st msg
                         else [InvokeCallback cb receipt] @ nack st msg
                     | None \<Rightarrow> ack st msg))))"

text \<open>The bodies of the two callback timers: both delete the entry under the sid.\<close>

definition fireReceiptCleanup :: "RabbitMQSender \<Rightarrow> string \<Rightarrow> RabbitMQSender" where
  "fireReceiptCleanup st s = st \<lparr> deliveryCallbacks := (deliveryCallbacks st)(s := None) \<rparr>"

definition fireCallbackExpiry :: "RabbitMQSender \<Rightarrow> string \<Rightarrow> RabbitMQSender" where
  "fireCallbackExpiry st s =
     (if deliveryCallbacks st s \<noteq> None
      then st \<lparr> deliveryCallbacks := (deliveryCallbacks st)(s := None) \<rparr>
      else st)"

text \<open>
  A parsed body is a receipt for the sid \<open>s\<close>: an object with the three properties of
  \<^verbatim>\<open>DeliveryReceipt\<close>, its sid being \<open>s\<close>.
\<close>

definition is_receipt :: "json \<Rightarrow> string \<Rightarrow> bool" where
  "is_receipt v s =
     (case v of
        JObj ps \<Rightarrow>
          map_of ps ''sid'' = Some (JStr s) \<and>
          map_of ps ''type'' = Some (JStr ''SMS_TYPE_STATUS'') \<and>
          map_of ps ''status'' \<in> {Some (JStr ''sent''), Some (JStr ''delivered''), Some (JStr ''failed'')}
      | _ \<Rightarrow> False)"

subsection \<open>What happens without a caller\<close>

text \<open>
  The steps the sender takes by itself: the reconnect timer fires (and the broker answers
  the attempt), or a connection object created earlier emits \<^verbatim>\<open>'error'\<close> or
  \<^verbatim>\<open>'close'\<close>. A timer that is not pending does not fire.
\<close>

datatype internal_event =
    TimerFires connect_outcome
  | ConnectionEvent

fun internal_step :: "RabbitMQSender \<Rightarrow> internal_event \<Rightarrow> RabbitMQSender \<times> event list" where
  "internal_step st (TimerFires oc) =
     (case fireReconnectTimer st oc of None \<Rightarrow> (st, []) | Some r \<Rightarrow> r)"
| "internal_step st ConnectionEvent = handleDisconnect st"

fun run_internal :: "RabbitMQSender \<Rightarrow> internal_event list \<Rightarrow> RabbitMQSender \<times> event list" where
  "run_internal st [] = (st, [])"
| "run_internal st (e # es) =
     (let (st1, ev1) = internal_step st e;
          (st2, ev2) = run_internal st1 es
      in (st2, ev1 @ ev2))"

fun is_reconnect_schedule :: "event \<Rightarrow> bool" where
  "is_reconnect_schedule (SetTimeout d ReconnectTimer) = True"
| "is_reconnect_schedule e = False"

fun is_connect_attempt :: "event \<Rightarrow> bool" where
  "is_connect_attempt (AmqpConnect url) = True"
| "is_connect_attempt e = False"

definition scheduled_reconnects :: "event list \<Rightarrow> nat" where
  "scheduled_reconnects ev = length (filter is_reconnect_schedule ev)"

definition connect_attempts :: "event list \<Rightarrow> nat" where
  "connect_attempts ev = length (filter is_connect_attempt ev)"

fun is_invocation :: "event \<Rightarrow> bool" where
  "is_invocation (InvokeCallback cb r) = True"
| "is_invocation e = False"

section \<open>Persistent queue: src/handlers/QueueManager.ts\<close>

datatype Priority = Urgent | High | Normal | Low

datatype Status = Pending | Processing | Resolved | Failed

datatype RoutingAction = Notify | Queue | AutoRespond | Ignore

text \<open>
  A row of the table \<^verbatim>\<open>messages\<close>. The column \<^verbatim>\<open>metadata\<close> holds the JSON text of an
  object or NULL; the model keeps the object.
\<close>

record Message =
  m_id :: int
  m_sender :: string
  m_content :: string
  m_priority :: Priority
  m_status :: Status
  m_timestamp :: int
  m_routing_action :: RoutingAction
  m_metadata :: "json option"

text \<open>
  A JavaScript number as far as \<^verbatim>\<open>limit\<close> and \<^verbatim>\<open>offset\<close> go: an integer value, a
  value that is no integer (a fraction or an infinity), or NaN.
\<close>

datatype number =
    Integer int
  | NonInteger
  | NaN

text \<open>Truthiness of a number: 0 and NaN are falsy.\<close>

fun is_truthy :: "number \<Rightarrow> bool" where
  "is_truthy (Integer n) = (n \<noteq> 0)"
| "is_truthy NonInteger = True"
| "is_truthy NaN = False"

record QueueFilters =
  f_status :: "Status option"
  f_priority :: "Priority option"
  f_routing_action :: "RoutingAction option"
  f_sender :: "string option"
  f_limit :: "number option"
  f_offset :: "number option"

text \<open>
  The database: the rows in rowid order and the AUTOINCREMENT counter (the largest rowid
  ever given). The table has no DELETE. Failures of the storage itself (I/O) are outside
  the model; the errors the code raises by itself are values.
\<close>

record QueueManager =
  rows :: "Message list"
  lastRowid :: int

datatype sqlite_error =
    SyntaxErrorNear string
  | DatatypeMismatch

datatype queue_error =
    RetrieveFailed sqlite_error
  | UpdateFailedNotFound int

definition addToQueue :: "QueueManager \<Rightarrow> string \<Rightarrow> Priority \<Rightarrow> RoutingAction \<Rightarrow> string \<Rightarrow> json option \<Rightarrow> int \<Rightarrow> QueueManager \<times> int" where
  "addToQueue qm message prio act sender metadata now =
     (let rowid = lastRowid qm + 1;
          row = \<lparr> m_id = rowid, m_sender = sender, m_content = message, m_priority = prio,
                  m_status = Pending, m_timestamp = now, m_routing_action = act,
                  m_metadata = metadata \<rparr>
      in (qm \<lparr> rows := rows qm @ [row], lastRowid := rowid \<rparr>, rowid))"

text \<open>
  \<^verbatim>\<open>updateStatus\<close>: \<^verbatim>\<open>UPDATE messages SET status = ? WHERE id = ?\<close>, and an error when
  no row changed.
\<close>

definition updateStatus :: "QueueManager \<Rightarrow> int \<Rightarrow> Status \<Rightarrow> queue_error + QueueManager" where
  "updateStatus qm rowId st =
     (if list_ex (\<lambda>r. m_id r = rowId) (rows qm)
      then Inr (qm \<lparr> rows := map (\<lambda>r. if m_id r = rowId then r \<lparr> m_status := st \<rparr> else r) (rows qm) \<rparr>)
      else Inl (UpdateFailedNotFound rowId))"

definition markResolved :: "QueueManager \<Rightarrow> int \<Rightarrow> queue_error + QueueManager" where
  "markResolved qm rowId = updateStatus qm rowId Resolved"

definition markProcessing :: "QueueManager \<Rightarrow> int \<Rightarrow> queue_error + QueueManager" where
  "markProcessing qm rowId = updateStatus qm rowId Processing"

definition markFailed :: "QueueManager \<Rightarrow> int \<Rightarrow> queue_error + QueueManager" where
  "markFailed qm rowId = updateStatus qm rowId Failed"

definition getMessage :: "QueueManager \<Rightarrow> int \<Rightarrow> Message option" where
  "getMessage qm rowId = find (\<lambda>r. m_id r = rowId) (rows qm)"

subsection \<open>The query of getQueue\<close>

text \<open>
  \<^verbatim>\<open>getQueue\<close> builds its SQL text by appending pieces to
  \<^verbatim>\<open>SELECT ... FROM messages WHERE 1=1\<close>, each with its bound parameter. The pieces:
\<close>

datatype sql_clause =
    AndStatus Status
  | AndPriority Priority
  | AndRoutingAction RoutingAction
  | AndSender string
  | OrderByTimestampDesc
  | LimitClause number
  | OffsetClause number

fun is_where :: "sql_clause \<Rightarrow> bool" where
  "is_where (AndStatus s) = True"
| "is_where (AndPriority p) = True"
| "is_where (AndRoutingAction a) = True"
| "is_where (AndSender s) = True"
| "is_where c = False"

fun satisfies :: "Message \<Rightarrow> sql_clause \<Rightarrow> bool" where
  "satisfies r (AndStatus s) = (m_status r = s)"
| "satisfies r (AndPriority p) = (m_priority r = p)"
| "satisfies r (AndRoutingAction a) = (m_routing_action r = a)"
| "satisfies r (AndSender s) = (m_sender r = s)"
| "satisfies r c = True"

text \<open>
  What SQLite does with such a statement (\<^verbatim>\<open>db.prepare(query)\<close> then \<^verbatim>\<open>stmt.all\<close>).
  Its SELECT grammar allows, after the ORDER BY, nothing, \<^verbatim>\<open>LIMIT n\<close>, or
  \<^verbatim>\<open>LIMIT n OFFSET m\<close>; an OFFSET that follows no LIMIT is a syntax error, raised by
  \<^verbatim>\<open>prepare\<close>.
\<close>

fun sqlite_limit :: "sql_clause list \<Rightarrow> sqlite_error + (number option \<times> number option)" where
  "sqlite_limit [] = Inr (None, None)"
| "sqlite_limit [LimitClause l] = Inr (Some l, None)"
| "sqlite_limit [LimitClause l, OffsetClause off] = Inr (Some l, Some off)"
| "sqlite_limit (OffsetClause off # cs) = Inl (SyntaxErrorNear ''OFFSET'')"
| "sqlite_limit (LimitClause l # LimitClause l' # cs) = Inl (SyntaxErrorNear ''LIMIT'')"
| "sqlite_limit (LimitClause l # c # cs) = Inl (SyntaxErrorNear ''?'')"
| "sqlite_limit (c # cs) = Inl (SyntaxErrorNear ''?'')"

text \<open>
  The driver binds a JavaScript number as a REAL. LIMIT and OFFSET need an integer:
  SQLite takes a REAL that is an integer strictly between \<open>-2^63\<close> and \<open>2^63\<close> and
  fails the statement with "datatype mismatch" on any other, when it runs.
\<close>

fun must_be_int :: "number \<Rightarrow> sqlite_error + int" where
  "must_be_int (Integer n) =
     (if - (2 ^ 63) < n \<and> n < 2 ^ 63 then Inr n else Inl DatatypeMismatch)"
| "must_be_int x = Inl DatatypeMismatch"

fun bound_value :: "number option \<Rightarrow> sqlite_error + int option" where
  "bound_value None = Inr None"
| "bound_value (Some x) = (case must_be_int x of Inl e \<Rightarrow> Inl e | Inr n \<Rightarrow> Inr (Some n))"

text \<open>A negative LIMIT means no limit and a negative OFFSET means 0.\<close>

definition limit_offset :: "int option \<Rightarrow> int option \<Rightarrow> 'a list \<Rightarrow> 'a list" where
  "limit_offset l off xs =
     (let ys = (case off of None \<Rightarrow> xs | Some m \<Rightarrow> drop (nat m) xs)
      in case l of None \<Rightarrow> ys | Some n \<Rightarrow> if n < 0 then ys else take (nat n) ys)"

text \<open>
  \<^verbatim>\<open>ORDER BY timestamp DESC\<close> leaves the order of rows with equal timestamps to the
  engine, which settles it by the plan it picks for the statement. So the order in which
  SQLite hands out the selected rows of a statement is a parameter \<open>ord\<close> of the model:
  for the statements of \<^verbatim>\<open>getQueue\<close> it is some arrangement of these rows by descending
  timestamp. \<open>newest_first\<close>, which keeps equal timestamps in rowid order, is one.
\<close>

type_synonym row_order = "sql_clause list \<Rightarrow> Message list \<Rightarrow> Message list"

definition newest_first :: "Message list \<Rightarrow> Message list" where
  "newest_first rs = sort_key (\<lambda>r. - m_timestamp r) rs"

definition sqlite_all :: "row_order \<Rightarrow> Message list \<Rightarrow> sql_clause list \<Rightarrow> sqlite_error + Message list" where
  "sqlite_all ord table q =
     (let conds = takeWhile is_where q;
          selected = filter (\<lambda>r. list_all (satisfies r) conds) table;
          paging = (case dropWhile is_where q of OrderByTimestampDesc # cs \<Rightarrow> cs | cs \<Rightarrow> cs)
      in case sqlite_limit paging of
           Inl e \<Rightarrow> Inl e
         | Inr (l, off) \<Rightarrow>
             (case bound_value l of
                Inl e \<Rightarrow> Inl e
              | Inr l' \<Rightarrow>
                  (case bound_value off of
                     Inl e \<Rightarrow> Inl e
                   | Inr off' \<Rightarrow> Inr (limit_offset l' off' (ord q selected)))))"

text \<open>
  The pieces \<^verbatim>\<open>getQueue\<close> appends, in its order. Each \<^verbatim>\<open>if (filters.x)\<close> tests
  truthiness: an absent filter, an empty sender and a limit or offset of 0 or NaN add
  nothing.
\<close>

definition build_query :: "QueueFilters \<Rightarrow> sql_clause list" where
  "build_query filters =
     (case f_status filters of None \<Rightarrow> [] | Some s \<Rightarrow> [AndStatus s]) @
     (case f_priority filters of None \<Rightarrow> [] | Some p \<Rightarrow> [AndPriority p]) @
     (case f_routing_action filters of None \<Rightarrow> [] | Some a \<Rightarrow> [AndRoutingAction a]) @
     (case f_sender filters of None \<Rightarrow> [] | Some s \<Rightarrow> if s = [] then [] else [AndSender s]) @
     [OrderByTimestampDesc] @
     (case f_limit filters of None \<Rightarrow> [] | Some n \<Rightarrow> if is_truthy n then [LimitClause n] else []) @
     (case f_offset filters of None \<Rightarrow> [] | Some m \<Rightarrow> if is_truthy m then [OffsetClause m] else [])"

definition getQueue :: "row_order \<Rightarrow> QueueManager \<Rightarrow> QueueFilters \<Rightarrow> queue_error + Message list" where
  "getQueue ord qm filters =
     (case sqlite_all ord (rows qm) (build_query filters) of
        Inl e \<Rightarrow> Inl (RetrieveFailed e)
      | Inr results \<Rightarrow> Inr results)"

text \<open>The rows a call with these filters is asked for, before ordering and paging.\<close>

definition matches :: "QueueFilters \<Rightarrow> Message \<Rightarrow> bool" where
  "matches filters r =
     ((case f_status filters of None \<Rightarrow> True | Some s \<Rightarrow> m_status r = s) \<and>
      (case f_priority filters of None \<Rightarrow> True | Some p \<Rightarrow> m_priority r = p) \<and>
      (case f_routing_action filters of None \<Rightarrow> True | Some a \<Rightarrow> m_routing_action r = a) \<and>
      (case f_sender filters of None \<Rightarrow> True | Some s \<Rightarrow> m_sender r = s))"

definition no_filters :: QueueFilters where
  "no_filters =
     \<lparr> f_status = None, f_priority = None, f_routing_action = None, f_sender = None,
       f_limit = None, f_offset = None \<rparr>"

section \<open>Routing: RoutingHandler.ts\<close>

subsection \<open>Data\<close>

datatype Channel = Sms | Email | Other

datatype ResponseChannel = RSms | REmail

record IncomingMessage =
  in_sender :: string
  in_content :: string
  in_channel :: Channel
  in_timestamp :: "int option"
  in_metadata :: "(string \<times> json) list option"

record AutoResponse =
  template :: string
  response_channel :: ResponseChannel
  subject :: "string option"

text \<open>
  A rule's condition is a predicate over the message, as its type
  \<^verbatim>\<open>(message: IncomingMessage) => boolean\<close> says.
\<close>

record RoutingRule =
  condition :: "IncomingMessage \<Rightarrow> bool"
  priority :: Priority
  action :: RoutingAction
  autoResponse :: "AutoResponse option"

record ProcessingResult =
  pr_messageId :: int
  pr_action :: RoutingAction
  pr_priority :: Priority
  notified :: bool
  responded :: bool
  pr_error :: "queue_error option"

subsection \<open>The string methods the default rules use\<close>

text \<open>
  A character is a code unit below 256, read as Latin-1. \<^verbatim>\<open>toLowerCase\<close> maps A to Z
  and the capitals \<open>0xC0\<close> to \<open>0xDE\<close> (the sign \<open>0xD7\<close> apart) to the letter 32 places up.
\<close>

definition upper_letters :: "char list" where
  "upper_letters =
     ''ABCDEFGHIJKLMNOPQRSTUVWXYZ'' @
     [CHR 0xC0, CHR 0xC1, CHR 0xC2, CHR 0xC3, CHR 0xC4, CHR 0xC5, CHR 0xC6, CHR 0xC7,
      CHR 0xC8, CHR 0xC9, CHR 0xCA, CHR 0xCB, CHR 0xCC, CHR 0xCD, CHR 0xCE, CHR 0xCF,
      CHR 0xD0, CHR 0xD1, CHR 0xD2, CHR 0xD3, CHR 0xD4, CHR 0xD5, CHR 0xD6,
      CHR 0xD8, CHR 0xD9, CHR 0xDA, CHR 0xDB, CHR 0xDC, CHR 0xDD, CHR 0xDE]"

definition lower_letters :: "char list" where
  "lower_letters =
     ''abcdefghijklmnopqrstuvwxyz'' @
     [CHR 0xE0, CHR 0xE1, CHR 0xE2, CHR 0xE3, CHR 0xE4, CHR 0xE5, CHR 0xE6, CHR 0xE7,
      CHR 0xE8, CHR 0xE9, CHR 0xEA, CHR 0xEB, CHR 0xEC, CHR 0xED, CHR 0xEE, CHR 0xEF,
      CHR 0xF0, CHR 0xF1, CHR 0xF2, CHR 0xF3, CHR 0xF4, CHR 0xF5, CHR 0xF6,
      CHR 0xF8, CHR 0xF9, CHR 0xFA, CHR 0xFB, CHR 0xFC, CHR 0xFD, CHR 0xFE]"

definition toLowerChar :: "char \<Rightarrow> char" where
  "toLowerChar c =
     (case map_of (zip upper_letters lower_letters) c of
        None \<Rightarrow> c
      | Some l \<Rightarrow> l)"

definition toLowerCase :: "string \<Rightarrow> string" where
  "toLowerCase s = map toLowerChar s"

fun str_includes :: "string \<Rightarrow> string \<Rightarrow> bool" where
  "str_includes [] k = (k = [])"
| "str_includes (c # cs) k = (prefix k (c # cs) \<or> str_includes cs k)"

text \<open>
  The white space and line terminators \<^verbatim>\<open>trim\<close> strips, as far as they lie below 256:
  tab, line feed, vertical tab, form feed, carriage return, space and no-break space.
\<close>

definition isWhiteSpace :: "char \<Rightarrow> bool" where
  "isWhiteSpace c =
     (c \<in> set [CHR 0x09, CHR 0x0A, CHR 0x0B, CHR 0x0C, CHR 0x0D, CHR 0x20, CHR 0xA0])"

definition trim :: "string \<Rightarrow> string" where
  "trim s = rev (dropWhile isWhiteSpace (rev (dropWhile isWhiteSpace s)))"

definition endsWith :: "string \<Rightarrow> string \<Rightarrow> bool" where
  "endsWith s k = suffix k s"

definition startsWith :: "string \<Rightarrow> string \<Rightarrow> bool" where
  "startsWith s k = prefix k s"

subsection \<open>The rules\<close>

definition urgentRule :: RoutingRule where
  "urgentRule =
     \<lparr> condition = (\<lambda>msg. list_ex (str_includes (toLowerCase (in_content msg)))
         [''urgent'', ''emergency'', ''911'', ''help'', ''asap'', ''critical'']),
       priority = Urgent, action = Notify, autoResponse = None \<rparr>"

definition importantRule :: RoutingRule where
  "importantRule =
     \<lparr> condition = (\<lambda>msg. list_ex (str_includes (toLowerCase (in_content msg)))
         [''important'', ''priority'', ''deadline'', ''tomorrow'']),
       priority = High, action = Notify, autoResponse = None \<rparr>"

definition questionRule :: RoutingRule where
  "questionRule =
     \<lparr> condition = (\<lambda>msg. endsWith (trim (in_content msg)) ''?'' \<or>
         startsWith (toLowerCase (trim (in_content msg))) ''can you''),
       priority = Normal, action = Queue, autoResponse = None \<rparr>"

definition spamRule :: RoutingRule where
  "spamRule =
     \<lparr> condition = (\<lambda>msg. list_ex (str_includes (toLowerCase (in_content msg)))
         [''free'', ''win'', ''prize'', ''click here'', ''unsubscribe'']),
       priority = Low, action = Ignore, autoResponse = None \<rparr>"

definition catchAllRule :: RoutingRule where
  "catchAllRule =
     \<lparr> condition = (\<lambda>msg. True), priority = Normal, action = Queue, autoResponse = None \<rparr>"

text \<open>\<^verbatim>\<open>initializeDefaultRules\<close> on the empty list.\<close>

definition initializeDefaultRules :: "RoutingRule list" where
  "initializeDefaultRules = [urgentRule, importantRule, questionRule, spamRule, catchAllRule]"

text \<open>
  \<^verbatim>\<open>addRule\<close>: \<^verbatim>\<open>rules.splice(rules.length - 1, 0, rule)\<close>. On an empty array the start
  index -1 is clamped to 0.
\<close>

definition addRule :: "RoutingRule \<Rightarrow> RoutingRule list \<Rightarrow> RoutingRule list" where
  "addRule rule rules =
     (if rules = [] then [rule] else butlast rules @ [rule] @ [last rules])"

definition resetRules :: "RoutingRule list \<Rightarrow> RoutingRule list" where
  "resetRules rules = initializeDefaultRules"

text \<open>
  The rule lists a handler can hold: the constructor's, and what \<^verbatim>\<open>addRule\<close> and
  \<^verbatim>\<open>resetRules\<close> (the only methods assigning \<^verbatim>\<open>this.rules\<close>) make of one.
\<close>

inductive handler_rules :: "RoutingRule list \<Rightarrow> bool" where
  constructed: "handler_rules initializeDefaultRules"
| added: "handler_rules rules \<Longrightarrow> handler_rules (addRule rule rules)"
| reset: "handler_rules rules \<Longrightarrow> handler_rules (resetRules rules)"

text \<open>
  \<^verbatim>\<open>findMatchingRule\<close>: the loop returns the first rule whose condition holds;
  \<open>None\<close> is the loop running off the end of the list, where the code returns a
  fallback rule.
\<close>

fun firstMatch :: "RoutingRule list \<Rightarrow> IncomingMessage \<Rightarrow> RoutingRule option" where
  "firstMatch [] message = None"
| "firstMatch (rule # rules) message =
     (if condition rule message then Some rule else firstMatch rules message)"

definition findMatchingRule :: "RoutingRule list \<Rightarrow> IncomingMessage \<Rightarrow> RoutingRule" where
  "findMatchingRule rules message =
     (case firstMatch rules message of
        Some rule \<Rightarrow> rule
      | None \<Rightarrow>
          \<lparr> condition = (\<lambda>msg. True), priority = Normal, action = Queue, autoResponse = None \<rparr>)"

subsection \<open>process\<close>

text \<open>
  What one call of \<^verbatim>\<open>process\<close> meets outside the handler: the values of the two
  \<^verbatim>\<open>Date.now()\<close> calls that reach the store (\<^verbatim>\<open>processedAt\<close> and the row's timestamp),
  and whether the notifier and the responder report success. The notification and the
  response themselves are the work of those collaborators.
\<close>

record process_env =
  now_processed :: int
  now_inserted :: int
  notification_sent :: bool
  response_sent :: bool

text \<open>The calls \<^verbatim>\<open>process\<close> makes on the queue manager, in order.\<close>

datatype queue_call =
    AddToQueue int
  | UpdateStatus int Status

text \<open>
  \<^verbatim>\<open>{...message.metadata, channel: message.channel, processedAt: Date.now()}\<close>
\<close>

fun channel_name :: "Channel \<Rightarrow> string" where
  "channel_name Sms = ''sms''"
| "channel_name Email = ''email''"
| "channel_name Other = ''other''"

definition set_property :: "string \<Rightarrow> json \<Rightarrow> (string \<times> json) list \<Rightarrow> (string \<times> json) list" where
  "set_property k v ps =
     (if k \<in> fst ` set ps then map (\<lambda>(k', v'). if k' = k then (k', v) else (k', v')) ps
      else ps @ [(k, v)])"

definition process_metadata :: "IncomingMessage \<Rightarrow> int \<Rightarrow> json" where
  "process_metadata message now =
     JObj (set_property ''processedAt'' (JNum now)
            (set_property ''channel'' (JStr (channel_name (in_channel message)))
              (case in_metadata message of None \<Rightarrow> [] | Some ps \<Rightarrow> ps)))"

text \<open>The result of the \<^verbatim>\<open>catch\<close> block.\<close>

definition error_result :: "queue_error \<Rightarrow> ProcessingResult" where
  "error_result e =
     \<lparr> pr_messageId = - 1, pr_action = Queue, pr_priority = Normal, notified = False,
       responded = False, pr_error = Some e \<rparr>"

text \<open>
  The shape the notify and the auto-respond branch share: mark processing, await the
  outcome \<open>ok\<close> of the side effect, mark resolved or failed. The result is the store,
  the calls made, and the error if a call threw.
\<close>

definition mark_through :: "QueueManager \<Rightarrow> int \<Rightarrow> bool \<Rightarrow> QueueManager \<times> queue_call list \<times> queue_error option" where
  "mark_through qm rowId ok =
     (case markProcessing qm rowId of
        Inl e \<Rightarrow> (qm, [UpdateStatus rowId Processing], Some e)
      | Inr qm1 \<Rightarrow>
          (let final = (if ok then Resolved else Failed) in
           case updateStatus qm1 rowId final of
             Inl e \<Rightarrow> (qm1, [UpdateStatus rowId Processing, UpdateStatus rowId final], Some e)
           | Inr qm2 \<Rightarrow> (qm2, [UpdateStatus rowId Processing, UpdateStatus rowId final], None)))"

definition process :: "RoutingRule list \<Rightarrow> QueueManager \<Rightarrow> process_env \<Rightarrow> IncomingMessage \<Rightarrow> QueueManager \<times> ProcessingResult \<times> queue_call list" where
  "process rules qm env message =
     (let rule = findMatchingRule rules message;
          (qm1, rowId) =
            addToQueue qm (in_content message) (priority rule) (action rule) (in_sender message)
              (Some (process_metadata message (now_processed env))) (now_inserted env);
          result = \<lparr> pr_messageId = rowId, pr_action = action rule, pr_priority = priority rule,
                     notified = False, responded = False, pr_error = None \<rparr>
      in case action rule of
           Notify \<Rightarrow>
             (case mark_through qm1 rowId (notification_sent env) of
                (qm2, calls, Some e) \<Rightarrow> (qm2, error_result e, AddToQueue rowId # calls)
              | (qm2, calls, None) \<Rightarrow>
                  (qm2, result \<lparr> notified := notification_sent env \<rparr>, AddToQueue rowId # calls))
         | AutoRespond \<Rightarrow>
             (case autoResponse rule of
                None \<Rightarrow> (qm1, result, [AddToQueue rowId])
              | Some ar \<Rightarrow>
                  (case mark_through qm1 rowId (response_sent env) of
                     (qm2, calls, Some e) \<Rightarrow> (qm2, error_result e, AddToQueue rowId # calls)
                   | (qm2, calls, None) \<Rightarrow>
                       (qm2, result \<lparr> responded := response_sent env \<rparr>, AddToQueue rowId # calls)))
         | Ignore \<Rightarrow>
             (case markResolved qm1 rowId of
                Inl e \<Rightarrow> (qm1, error_result e, [AddToQueue rowId, UpdateStatus rowId Resolved])
              | Inr qm2 \<Rightarrow> (qm2, result, [AddToQueue rowId, UpdateStatus rowId Resolved]))
         | Queue \<Rightarrow> (qm1, result, [AddToQueue rowId]))"

section \<open>Notions used in the statements\<close>

text \<open>The envelopes handed to \<^verbatim>\<open>channel.sendToQueue\<close> in a run, in order.\<close>

fun published :: "event list \<Rightarrow> DekuSMSMessage list" where
  "published [] = []"
| "published (SendToQueue q e # ev) = e # published ev"
| "published (e # ev) = published ev"

text \<open>
  The sender has stopped reconnecting: it is disconnected, no timer is pending and the
  attempt counter has reached the bound.
\<close>

definition gave_up :: "RabbitMQSender \<Rightarrow> bool" where
  "gave_up st =
     (\<not> reconnectTimer st \<and> \<not> isConnected st \<and>
      reconnectAttempts st \<ge> or_default (maxReconnectAttempts (config st)) 10)"

text \<open>
  The invariant of the store that AUTOINCREMENT maintains: no row has a rowid above the
  counter.
\<close>

definition wf_queue :: "QueueManager \<Rightarrow> bool" where
  "wf_queue qm = list_all (\<lambda>r. m_id r \<le> lastRowid qm) (rows qm)"

text \<open>The WHERE pieces of the query, a truthy number, and the filters that take effect.\<close>

definition where_clauses :: "QueueFilters \<Rightarrow> sql_clause list" where
  "where_clauses filters =
     (case f_status filters of None \<Rightarrow> [] | Some s \<Rightarrow> [AndStatus s]) @
     (case f_priority filters of None \<Rightarrow> [] | Some p \<Rightarrow> [AndPriority p]) @
     (case f_routing_action filters of None \<Rightarrow> [] | Some a \<Rightarrow> [AndRoutingAction a]) @
     (case f_sender filters of None \<Rightarrow> [] | Some s \<Rightarrow> if s = [] then [] else [AndSender s])"

definition truthy :: "number option \<Rightarrow> number option" where
  "truthy x = (case x of None \<Rightarrow> None | Some n \<Rightarrow> if is_truthy n then Some n else None)"

definition effective :: "QueueFilters \<Rightarrow> QueueFilters" where
  "effective filters =
     filters \<lparr> f_sender := (if f_sender filters = Some [] then None else f_sender filters) \<rparr>"

subsection \<open>Concrete inputs\<close>

definition example_config :: RabbitMQConfig where
  "example_config =
     \<lparr> rabbitmqUrl = ''amqp://localhost:5672'', queueName = ''sms_outbound'',
       callbackQueue = ''sms_callbacks'', reconnectDelayMs = None,
       maxReconnectAttempts = None \<rparr>"

text \<open>A sender after a successful \<^verbatim>\<open>connect()\<close>.\<close>

definition ready_sender :: RabbitMQSender where
  "ready_sender = fst (connect (new_RabbitMQSender example_config) ConnectSucceeds)"

definition example_env :: "publish_outcome \<Rightarrow> send_env" where
  "example_env p =
     \<lparr> connectOutcome = ConnectSucceeds, uuid1 = ''uuid-1'', uuid2 = ''uuid-2'',
       publishOutcome = p \<rparr>"

text \<open>The same sender after a send under the sid X with the callback 7.\<close>

definition sender_awaiting_X :: RabbitMQSender where
  "sender_awaiting_X =
     fst (sendSMS ready_sender (example_env PublishAccepted) ''+15551234567'' ''Test''
            (Some ''X'') (Some 7))"

text \<open>The same sender after its connection emitted an error: the channel field is cleared.\<close>

definition sender_without_channel :: RabbitMQSender where
  "sender_without_channel = fst (handleDisconnect sender_awaiting_X)"

text \<open>
  A sender with maxReconnectAttempts = 2 facing a broker that refuses every connection:
  after the first \<^verbatim>\<open>connect()\<close> and one firing of the timer (the second reconnect is
  pending), and after the second firing (no reconnect is pending).
\<close>

definition refused :: connect_outcome where
  "refused = ConnectFails AtConnect ''Connection failed''"

definition sender_retrying :: RabbitMQSender where
  "sender_retrying =
     fst (internal_step
            (fst (connect (new_RabbitMQSender (example_config \<lparr> maxReconnectAttempts := Some 2 \<rparr>))
                    refused))
            (TimerFires refused))"

definition sender_stopped :: RabbitMQSender where
  "sender_stopped = fst (internal_step sender_retrying (TimerFires refused))"

definition delivered_receipt :: "string \<Rightarrow> json" where
  "delivered_receipt s =
     JObj [(''type'', JStr ''SMS_TYPE_STATUS''), (''status'', JStr ''delivered''),
           (''sid'', JStr s)]"

text \<open>
  A stand-in for \<^verbatim>\<open>JSON.parse\<close> on three bodies: the receipts for X and for Y, and
  anything else, which does not parse.
\<close>

definition example_parse :: "string \<Rightarrow> json option" where
  "example_parse body =
     (if body = ''receipt for X'' then Some (delivered_receipt ''X'')
      else if body = ''receipt for Y'' then Some (delivered_receipt ''Y'')
      else None)"

definition example_receipt_env :: "bool \<Rightarrow> receipt_env" where
  "example_receipt_env returns =
     \<lparr> json_parse = example_parse, callback_returns = (\<lambda>cb receipt. returns) \<rparr>"

definition broker_message :: "string \<Rightarrow> ConsumeMessage" where
  "broker_message body = \<lparr> msg_content = body, deliveryTag = 1 \<rparr>"

definition example_message :: "string \<Rightarrow> IncomingMessage" where
  "example_message body =
     \<lparr> in_sender = ''+15550000001'', in_content = body, in_channel = Sms,
       in_timestamp = None, in_metadata = None \<rparr>"

definition empty_queue :: QueueManager where
  "empty_queue = \<lparr> rows = [], lastRowid = 0 \<rparr>"

definition example_process_env :: process_env where
  "example_process_env =
     \<lparr> now_processed = 1700000000000, now_inserted = 1700000000001,
       notification_sent = True, response_sent = True \<rparr>"

section \<open>Properties of the transport\<close>

subsection \<open>Traces of connect and publish\<close>

lemma published_append: "published (xs @ ys) = published xs @ published ys"
  by (induction xs rule: published.induct) auto

lemma published_attempted: "published (attempted cfg stage) = []"
  by (cases stage) (simp_all add: attempted_def connect_calls_def)

lemma published_connect:
  assumes "connect st oc = (st', r, ev)"
  shows "published ev = []"
proof (cases oc)
  case ConnectSucceeds
  with assms show ?thesis
    by (auto simp: connect_def published_attempted split: if_splits)
next
  case (ConnectFails stage msg)
  with assms show ?thesis
    by (auto simp: connect_def scheduleReconnect_def Let_def published_append published_attempted
          split: if_splits)
qed

lemma connect_keeps:
  "connect st oc = (st', r, ev) \<Longrightarrow>
     deliveryCallbacks st' = deliveryCallbacks st \<and> config st' = config st"
  by (auto simp: connect_def Let_def scheduleReconnect_def
        split: if_splits connect_outcome.splits prod.splits)

lemma published_publish:
  "publish st env to body sid cb = (st', r, ev) \<Longrightarrow> published ev = [envelope env to body sid]"
  by (auto simp: publish_def Let_def published_append split: option.splits publish_outcome.splits)

text \<open>
  A call of \<open>sendSMS\<close> whose trace holds a publish went through the \<open>try\<close> block, after
  a connect (if any) that left the registry and the configuration alone.
\<close>

lemma sendSMS_reaches_publish:
  assumes "sendSMS st env to body sid cb = (st', r, ev)" and "published ev \<noteq> []"
  shows "\<exists>st1 ev1 ev2. publish st1 env to body sid cb = (st', r, ev2) \<and> ev = ev1 @ ev2 \<and>
           published ev1 = [] \<and> deliveryCallbacks st1 = deliveryCallbacks st \<and>
           config st1 = config st"
proof (cases "isConnected st")
  case True
  with assms have "publish st env to body sid cb = (st', r, ev)"
    by (auto simp: sendSMS_def Let_def failure_def split: if_splits prod.splits)
  then show ?thesis
    by (intro exI[of _ st] exI[of _ "[]"] exI[of _ ev]) simp
next
  case False
  obtain st1 r1 ev1 where c: "connect st (connectOutcome env) = (st1, r1, ev1)"
    by (cases "connect st (connectOutcome env)") auto
  obtain st2 r2 ev2 where p: "publish st1 env to body sid cb = (st2, r2, ev2)"
    by (cases "publish st1 env to body sid cb") auto
  from c have e1: "published ev1 = []"
    by (rule published_connect)
  from c have k: "deliveryCallbacks st1 = deliveryCallbacks st \<and> config st1 = config st"
    by (rule connect_keeps)
  from assms False c p e1 have "st' = st2 \<and> r = r2 \<and> ev = ev1 @ ev2"
    by (auto simp: sendSMS_def Let_def split: if_splits sum.splits)
  with p e1 k show ?thesis by blast
qed

text \<open>The concrete senders and what they do, computed once.\<close>

lemma ready_sender_fields:
  "isConnected ready_sender" "channel ready_sender" "connectionModel ready_sender"
  "\<not> reconnectTimer ready_sender" "deliveryCallbacks ready_sender = Map.empty"
  "queueName (config ready_sender) = ''sms_outbound''"
  by (simp_all add: ready_sender_def connect_def new_RabbitMQSender_def example_config_def)

lemma example_env_fields:
  "publishOutcome (example_env p) = p" "uuid1 (example_env p) = ''uuid-1''"
  "uuid2 (example_env p) = ''uuid-2''" "connectOutcome (example_env p) = ConnectSucceeds"
  by (simp_all add: example_env_def)

lemma valid_example_number: "validateE164 ''+15551234567''"
  by (simp add: isDigit_def isDigit19_def)

lemma sendSMS_ready_sender:
  "sendSMS ready_sender env ''+15551234567'' body sid cb =
     publish ready_sender env ''+15551234567'' body sid cb"
  by (simp add: sendSMS_def ready_sender_fields valid_example_number del: validateE164.simps)

lemma sender_awaiting_X_fields:
  "isConnected sender_awaiting_X" "channel sender_awaiting_X"
  "deliveryCallbacks sender_awaiting_X = [''X'' \<mapsto> 7]"
  "queueName (config sender_awaiting_X) = ''sms_outbound''"
  by (simp_all add: sender_awaiting_X_def sendSMS_ready_sender publish_def example_env_def
        messageSid_of_def ready_sender_fields Let_def)

lemma sendSMS_sender_awaiting_X:
  "sendSMS sender_awaiting_X env ''+15551234567'' body sid cb =
     publish sender_awaiting_X env ''+15551234567'' body sid cb"
  by (simp add: sendSMS_def sender_awaiting_X_fields valid_example_number del: validateE164.simps)

subsection \<open>Validation of the destination\<close>

lemma validateE164_iff_spec: "validateE164 s = e164_spec s"
proof (cases s)
  case Nil
  then show ?thesis by (simp add: e164_spec_def)
next
  case (Cons p ds)
  then show ?thesis
    by (cases ds) (auto simp: e164_spec_def isDigit19_def isDigit_def)
qed

text \<open>
  C2: \<open>sendSMS\<close> validates the destination against E.164, a plus sign followed by 2 to
  15 digits of which the first is 1 to 9 (the regular expression of the code and this
  wording agree on every string). The four numbers +15551234567, +447700900123, +123 and
  +123456789012345 pass, and a ready sender goes on to publish for a number that passes;
  5551234567, +0551234567, +12345678901234567 and the empty string do not pass. Every
  call with a destination that does not pass returns the failure result at once: the
  sender is unchanged and the trace is empty, so nothing is connected or published.
\<close>

theorem sendSMS_validates_E164:
  "validateE164 ''+15551234567'' \<and> validateE164 ''+447700900123'' \<and>
   validateE164 ''+123'' \<and> validateE164 ''+123456789012345'' \<and>
   \<not> validateE164 ''5551234567'' \<and> \<not> validateE164 ''+0551234567'' \<and>
   \<not> validateE164 ''+12345678901234567'' \<and> \<not> validateE164 [] \<and>
   validateE164 to = e164_spec to \<and>
   (\<not> validateE164 to \<longrightarrow>
      sendSMS st env to body sid cb =
        (st,
         Settled \<lparr> success = False, messageId = None,
           error = Some (''Invalid phone number format: '' @ to @
             ''. Must be E.164 format (e.g., +15551234567)'') \<rparr>,
         [])) \<and>
   (validateE164 to \<and> isConnected st \<and> channel st \<longrightarrow>
      published (snd (snd (sendSMS st env to body sid cb))) = [envelope env to body sid])"
proof -
  have accepted: "validateE164 ''+15551234567'' \<and> validateE164 ''+447700900123'' \<and>
      validateE164 ''+123'' \<and> validateE164 ''+123456789012345''"
    by (simp add: isDigit_def isDigit19_def)
  have rejected: "\<not> validateE164 ''5551234567'' \<and> \<not> validateE164 ''+0551234567'' \<and>
      \<not> validateE164 ''+12345678901234567'' \<and> \<not> validateE164 []"
    by (simp add: isDigit_def isDigit19_def)
  have no_io: "\<not> validateE164 to \<longrightarrow>
      sendSMS st env to body sid cb =
        (st,
         Settled \<lparr> success = False, messageId = None,
           error = Some (''Invalid phone number format: '' @ to @
             ''. Must be E.164 format (e.g., +15551234567)'') \<rparr>,
         [])"
    by (simp add: sendSMS_def failure_def)
  have goes_on: "validateE164 to \<and> isConnected st \<and> channel st \<longrightarrow>
      published (snd (snd (sendSMS st env to body sid cb))) = [envelope env to body sid]"
  proof (intro impI, elim conjE)
    assume "validateE164 to" "isConnected st" "channel st"
    then have "sendSMS st env to body sid cb = publish st env to body sid cb"
      by (simp add: sendSMS_def)
    then show "published (snd (snd (sendSMS st env to body sid cb))) = [envelope env to body sid]"
      using published_publish[of st env "to" body sid cb]
      by (cases "publish st env to body sid cb") simp
  qed
  from accepted rejected no_io goes_on validateE164_iff_spec[of "to"] show ?thesis
    by blast
qed

theorem sendSMS_validates_E164_witness:
  "\<not> validateE164 ''5551234567'' \<and>
   sendSMS (new_RabbitMQSender example_config) (example_env PublishAccepted) ''5551234567''
       ''Test'' None None =
     (new_RabbitMQSender example_config,
      Settled \<lparr> success = False, messageId = None,
        error = Some ''Invalid phone number format: 5551234567. Must be E.164 format (e.g., +15551234567)'' \<rparr>,
      []) \<and>
   validateE164 ''+15551234567'' \<and> isConnected ready_sender \<and> channel ready_sender \<and>
   published (snd (snd (sendSMS ready_sender (example_env PublishAccepted) ''+15551234567''
       ''Test'' None None))) =
     [\<lparr> msg_sid = ''uuid-2'', msg_id = ''uuid-1'', msg_to = ''+15551234567'', msg_text = ''Test'' \<rparr>]"
proof -
  have bad: "\<not> validateE164 ''5551234567''"
    by (simp add: isDigit_def isDigit19_def)
  note rejected =
    sendSMS_validates_E164[of "''5551234567''" "new_RabbitMQSender example_config"
      "example_env PublishAccepted" "''Test''" None None]
  note accepted =
    sendSMS_validates_E164[of "''+15551234567''" ready_sender
      "example_env PublishAccepted" "''Test''" None None]
  from rejected bad have 1:
    "sendSMS (new_RabbitMQSender example_config) (example_env PublishAccepted) ''5551234567''
       ''Test'' None None =
     (new_RabbitMQSender example_config,
      Settled \<lparr> success = False, messageId = None,
        error = Some ''Invalid phone number format: 5551234567. Must be E.164 format (e.g., +15551234567)'' \<rparr>,
      [])"
    by simp
  from accepted valid_example_number ready_sender_fields have 2:
    "published (snd (snd (sendSMS ready_sender (example_env PublishAccepted) ''+15551234567''
       ''Test'' None None))) =
     [envelope (example_env PublishAccepted) ''+15551234567'' ''Test'' None]"
    by blast
  from bad 1 2 valid_example_number ready_sender_fields show ?thesis
    by (simp add: envelope_def messageSid_of_def example_env_def del: validateE164.simps)
qed

subsection \<open>Backpressure\<close>

text \<open>
  C4: in every call of \<open>sendSMS\<close> that publishes and whose publish reports a full buffer
  (\<open>sendToQueue\<close> returns false), the promise is left pending on the channel's drain
  event, registered last, and on that event it resolves with success true and a
  messageId. It is not settled with a failure result.
\<close>

theorem sendSMS_backpressure:
  "publishOutcome env = PublishBufferFull \<and> sendSMS st env to body sid cb = (st', r, ev) \<and>
   published ev \<noteq> [] \<longrightarrow>
     r = AwaitingDrain (sent_ok (messageSid_of env sid)) \<and>
     drain r =
       Settled \<lparr> success = True, messageId = Some (messageSid_of env sid), error = None \<rparr> \<and>
     last ev = OnceDrain"
proof (intro impI, elim conjE)
  assume full: "publishOutcome env = PublishBufferFull"
    and s: "sendSMS st env to body sid cb = (st', r, ev)" and pub: "published ev \<noteq> []"
  from sendSMS_reaches_publish[OF s pub] obtain st1 ev1 ev2 where
    p: "publish st1 env to body sid cb = (st', r, ev2)" and ev: "ev = ev1 @ ev2" by blast
  from p full have
    "r = AwaitingDrain (sent_ok (messageSid_of env sid)) \<and> ev2 \<noteq> [] \<and> last ev2 = OnceDrain"
    by (auto simp: publish_def Let_def split: option.splits)
  with ev show "r = AwaitingDrain (sent_ok (messageSid_of env sid)) \<and>
     drain r =
       Settled \<lparr> success = True, messageId = Some (messageSid_of env sid), error = None \<rparr> \<and>
     last ev = OnceDrain"
    by (simp add: sent_ok_def)
qed

lemma full_buffer_run:
  "sendSMS ready_sender (example_env PublishBufferFull) ''+15551234567'' ''Test'' None None =
     (ready_sender, AwaitingDrain (sent_ok ''uuid-2''),
      [SendToQueue ''sms_outbound''
         \<lparr> msg_sid = ''uuid-2'', msg_id = ''uuid-1'', msg_to = ''+15551234567'',
           msg_text = ''Test'' \<rparr>,
       OnceDrain])"
  by (simp add: sendSMS_ready_sender publish_def example_env_def messageSid_of_def
        envelope_def ready_sender_fields)

theorem sendSMS_backpressure_witness:
  "publishOutcome (example_env PublishBufferFull) = PublishBufferFull \<and>
   published (snd (snd (sendSMS ready_sender (example_env PublishBufferFull) ''+15551234567''
       ''Test'' None None))) \<noteq> [] \<and>
   drain (fst (snd (sendSMS ready_sender (example_env PublishBufferFull) ''+15551234567''
       ''Test'' None None))) =
     Settled \<lparr> success = True, messageId = Some ''uuid-2'', error = None \<rparr>"
  using sendSMS_backpressure[of "example_env PublishBufferFull" ready_sender "''+15551234567''"
      "''Test''" None None ready_sender "AwaitingDrain (sent_ok ''uuid-2'')"
      "[SendToQueue ''sms_outbound''
         \<lparr> msg_sid = ''uuid-2'', msg_id = ''uuid-1'', msg_to = ''+15551234567'',
           msg_text = ''Test'' \<rparr>,
       OnceDrain]"]
  by (simp add: full_buffer_run example_env_fields messageSid_of_def)

subsection \<open>The identifier a successful send reports\<close>

text \<open>A call whose trace holds no publish ended in one of the three early failures.\<close>

lemma sendSMS_without_publish:
  assumes "sendSMS st env to body sid cb = (st', r, ev)" and "published ev = []"
  shows "\<exists>m. r = Settled (failure m)"
proof (cases "validateE164 to")
  case False
  with assms(1) show ?thesis
    by (auto simp: sendSMS_def)
next
  case True
  obtain st1 r1 ev1 where
    c: "(if \<not> isConnected st then connect st (connectOutcome env) else (st, Inr (), [])) =
          (st1, r1, ev1)"
    by (cases "if \<not> isConnected st then connect st (connectOutcome env) else (st, Inr (), [])")
      auto
  show ?thesis
  proof (cases r1)
    case (Inl e)
    with assms(1) True c show ?thesis
      by (auto simp: sendSMS_def simp del: validateE164.simps)
  next
    case (Inr u)
    show ?thesis
    proof (cases "channel st1")
      case False
      with assms(1) True c Inr show ?thesis
        by (auto simp: sendSMS_def simp del: validateE164.simps)
    next
      case ch: True
      obtain st2 r2 ev2 where p: "publish st1 env to body sid cb = (st2, r2, ev2)"
        by (cases "publish st1 env to body sid cb") auto
      from assms(1) True c Inr ch p have "ev = ev1 @ ev2"
        by (simp add: sendSMS_def del: validateE164.simps)
      with published_publish[OF p] assms(2) show ?thesis
        by (simp add: published_append)
    qed
  qed
qed

text \<open>
  C10: every call of \<open>sendSMS\<close> that ends in success, at once or after the drain event,
  has published exactly one envelope, and the messageId of its result is the sid field
  of that envelope: the caller's sid, or the second UUID drawn when the caller gives none
  (or an empty one). It is not the envelope's id field, which is the first UUID drawn:
  whenever the two fields differ, the messageId differs from the id.
\<close>

theorem sendSMS_messageId_is_sid:
  "sendSMS st env to body sid cb = (st', r, ev) \<and> drain r = Settled res \<and> success res \<longrightarrow>
     published ev = [envelope env to body sid] \<and>
     messageId res = Some (msg_sid (envelope env to body sid)) \<and>
     msg_id (envelope env to body sid) = uuid1 env \<and>
     msg_sid (envelope env to body sid) =
       (case sid of None \<Rightarrow> uuid2 env | Some s \<Rightarrow> if s = [] then uuid2 env else s) \<and>
     (msg_sid (envelope env to body sid) \<noteq> msg_id (envelope env to body sid) \<longrightarrow>
        messageId res \<noteq> Some (msg_id (envelope env to body sid)))"
proof (intro impI, elim conjE)
  assume s: "sendSMS st env to body sid cb = (st', r, ev)"
    and d: "drain r = Settled res" and ok: "success res"
  have pub: "published ev \<noteq> []"
  proof
    assume "published ev = []"
    from sendSMS_without_publish[OF s this] d ok show False
      by (auto simp: failure_def)
  qed
  from sendSMS_reaches_publish[OF s pub] obtain st1 ev1 ev2 where
    p: "publish st1 env to body sid cb = (st', r, ev2)" and ev: "ev = ev1 @ ev2"
    and e1: "published ev1 = []" by blast
  from published_publish[OF p] ev e1 have 1: "published ev = [envelope env to body sid]"
    by (simp add: published_append)
  from p d ok have 2: "messageId res = Some (messageSid_of env sid)"
    by (auto simp: publish_def Let_def sent_ok_def failure_def
          split: option.splits publish_outcome.splits)
  from 1 2 show "published ev = [envelope env to body sid] \<and>
     messageId res = Some (msg_sid (envelope env to body sid)) \<and>
     msg_id (envelope env to body sid) = uuid1 env \<and>
     msg_sid (envelope env to body sid) =
       (case sid of None \<Rightarrow> uuid2 env | Some s \<Rightarrow> if s = [] then uuid2 env else s) \<and>
     (msg_sid (envelope env to body sid) \<noteq> msg_id (envelope env to body sid) \<longrightarrow>
        messageId res \<noteq> Some (msg_id (envelope env to body sid)))"
    by (simp add: envelope_def messageSid_of_def)
qed

lemma accepted_run:
  "sendSMS ready_sender (example_env PublishAccepted) ''+15551234567'' ''Test'' None None =
     (ready_sender, Settled (sent_ok ''uuid-2''),
      [SendToQueue ''sms_outbound''
         \<lparr> msg_sid = ''uuid-2'', msg_id = ''uuid-1'', msg_to = ''+15551234567'',
           msg_text = ''Test'' \<rparr>])"
  by (simp add: sendSMS_ready_sender publish_def example_env_def messageSid_of_def
        envelope_def ready_sender_fields)

theorem sendSMS_messageId_is_sid_witness:
  "drain (fst (snd (sendSMS ready_sender (example_env PublishAccepted) ''+15551234567''
       ''Test'' None None))) = Settled (sent_ok ''uuid-2'') \<and>
   success (sent_ok ''uuid-2'') \<and>
   messageId (sent_ok ''uuid-2'') = Some ''uuid-2'' \<and>
   msg_sid (envelope (example_env PublishAccepted) ''+15551234567'' ''Test'' None) = ''uuid-2'' \<and>
   msg_id (envelope (example_env PublishAccepted) ''+15551234567'' ''Test'' None) = ''uuid-1''"
proof -
  have ok: "success (sent_ok ''uuid-2'')"
    by (simp add: sent_ok_def)
  have pre: "sendSMS ready_sender (example_env PublishAccepted) ''+15551234567'' ''Test'' None None =
      (ready_sender, Settled (sent_ok ''uuid-2''),
       [SendToQueue ''sms_outbound''
          \<lparr> msg_sid = ''uuid-2'', msg_id = ''uuid-1'', msg_to = ''+15551234567'',
            msg_text = ''Test'' \<rparr>]) \<and>
      drain (Settled (sent_ok ''uuid-2'')) = Settled (sent_ok ''uuid-2'') \<and>
      success (sent_ok ''uuid-2'')"
    using accepted_run ok by simp
  from sendSMS_messageId_is_sid[of ready_sender "example_env PublishAccepted"
      "''+15551234567''" "''Test''" None None ready_sender "Settled (sent_ok ''uuid-2'')"
      "[SendToQueue ''sms_outbound''
         \<lparr> msg_sid = ''uuid-2'', msg_id = ''uuid-1'', msg_to = ''+15551234567'',
           msg_text = ''Test'' \<rparr>]"
      "sent_ok ''uuid-2''"] pre
  have concl: "messageId (sent_ok ''uuid-2'') =
      Some (msg_sid (envelope (example_env PublishAccepted) ''+15551234567'' ''Test'' None))"
    by blast
  have fields:
    "msg_sid (envelope (example_env PublishAccepted) ''+15551234567'' ''Test'' None) = ''uuid-2''"
    "msg_id (envelope (example_env PublishAccepted) ''+15551234567'' ''Test'' None) = ''uuid-1''"
    by (simp_all add: envelope_def messageSid_of_def example_env_fields)
  have run: "drain (fst (snd (sendSMS ready_sender (example_env PublishAccepted) ''+15551234567''
       ''Test'' None None))) = Settled (sent_ok ''uuid-2'')"
    by (simp add: accepted_run)
  from concl fields(1) have "messageId (sent_ok ''uuid-2'') = Some ''uuid-2''"
    by simp
  with run ok fields show ?thesis
    by blast
qed

subsection \<open>A publish that throws\<close>

text \<open>
  C7, as amended: if the publish call inside \<open>sendSMS\<close> throws, the result is
  success false with the exception's message as error, and when a delivery callback was
  passed the entry under that send's correlation id is removed from the registry, all
  other entries being as before the call (without a callback the registry is untouched).
  So the registry equals its pre-send content whenever no callback was passed or the
  correlation id had no entry before the call.
\<close>

theorem sendSMS_publish_throws:
  "publishOutcome env = PublishThrows msg \<and> sendSMS st env to body sid cb = (st', r, ev) \<and>
   published ev \<noteq> [] \<longrightarrow>
     r = Settled \<lparr> success = False, messageId = None, error = Some msg \<rparr> \<and>
     deliveryCallbacks st' =
       (case cb of
          None \<Rightarrow> deliveryCallbacks st
        | Some f \<Rightarrow> (deliveryCallbacks st)(messageSid_of env sid := None)) \<and>
     (cb = None \<or> deliveryCallbacks st (messageSid_of env sid) = None \<longrightarrow>
        deliveryCallbacks st' = deliveryCallbacks st)"
proof (intro impI, elim conjE)
  assume t: "publishOutcome env = PublishThrows msg"
    and s: "sendSMS st env to body sid cb = (st', r, ev)" and pub: "published ev \<noteq> []"
  from sendSMS_reaches_publish[OF s pub] obtain st1 ev1 ev2 where
    p: "publish st1 env to body sid cb = (st', r, ev2)" and "ev = ev1 @ ev2"
    and k: "deliveryCallbacks st1 = deliveryCallbacks st" by blast
  from p t k have 1: "r = Settled \<lparr> success = False, messageId = None, error = Some msg \<rparr> \<and>
     deliveryCallbacks st' =
       (case cb of
          None \<Rightarrow> deliveryCallbacks st
        | Some f \<Rightarrow> (deliveryCallbacks st)(messageSid_of env sid := None))"
    by (auto simp: publish_def Let_def failure_def split: option.splits)
  then show "r = Settled \<lparr> success = False, messageId = None, error = Some msg \<rparr> \<and>
     deliveryCallbacks st' =
       (case cb of
          None \<Rightarrow> deliveryCallbacks st
        | Some f \<Rightarrow> (deliveryCallbacks st)(messageSid_of env sid := None)) \<and>
     (cb = None \<or> deliveryCallbacks st (messageSid_of env sid) = None \<longrightarrow>
        deliveryCallbacks st' = deliveryCallbacks st)"
    by (auto split: option.splits)
qed

lemma ready_sender_unregistered:
  "ready_sender \<lparr> deliveryCallbacks := Map.empty \<rparr> = ready_sender"
  by (simp add: ready_sender_def connect_def new_RabbitMQSender_def)

lemma throwing_run_fresh:
  "sendSMS ready_sender (example_env (PublishThrows ''Send failed'')) ''+15551234567'' ''Test''
       (Some ''X'') (Some 7) =
     (ready_sender, Settled (failure ''Send failed''),
      [SetTimeout 300000 (CallbackExpiry ''X''),
       SendToQueue ''sms_outbound''
         \<lparr> msg_sid = ''X'', msg_id = ''uuid-1'', msg_to = ''+15551234567'',
           msg_text = ''Test'' \<rparr>])"
  by (simp add: sendSMS_ready_sender publish_def example_env_def messageSid_of_def
        envelope_def ready_sender_fields Let_def ready_sender_unregistered)

theorem sendSMS_publish_throws_witness:
  "publishOutcome (example_env (PublishThrows ''Send failed'')) = PublishThrows ''Send failed'' \<and>
   deliveryCallbacks ready_sender ''X'' = None \<and>
   sendSMS ready_sender (example_env (PublishThrows ''Send failed'')) ''+15551234567'' ''Test''
       (Some ''X'') (Some 7) =
     (ready_sender,
      Settled \<lparr> success = False, messageId = None, error = Some ''Send failed'' \<rparr>,
      [SetTimeout 300000 (CallbackExpiry ''X''),
       SendToQueue ''sms_outbound''
         \<lparr> msg_sid = ''X'', msg_id = ''uuid-1'', msg_to = ''+15551234567'',
           msg_text = ''Test'' \<rparr>]) \<and>
   deliveryCallbacks ready_sender = Map.empty"
  using sendSMS_publish_throws[of "example_env (PublishThrows ''Send failed'')" "''Send failed''"
      ready_sender "''+15551234567''" "''Test''" "Some ''X''" "Some 7" ready_sender
      "Settled (failure ''Send failed'')"
      "[SetTimeout 300000 (CallbackExpiry ''X''),
       SendToQueue ''sms_outbound''
         \<lparr> msg_sid = ''X'', msg_id = ''uuid-1'', msg_to = ''+15551234567'',
           msg_text = ''Test'' \<rparr>]"]
  by (simp add: throwing_run_fresh example_env_fields failure_def ready_sender_fields)

text \<open>
  C7 as stated fails: the registry is not always restored to its pre-send content. A
  sender holds the callback 7 under the sid X; a second send under the same sid with the
  callback 8 throws at publish. Afterwards the registry is empty: the callback 7, which
  was registered before the call, is gone.
\<close>

theorem sendSMS_publish_throws_counterexample:
  "publishOutcome (example_env (PublishThrows ''Send failed'')) = PublishThrows ''Send failed'' \<and>
   deliveryCallbacks sender_awaiting_X = [''X'' \<mapsto> 7] \<and>
   fst (snd (sendSMS sender_awaiting_X (example_env (PublishThrows ''Send failed''))
       ''+15551234567'' ''Again'' (Some ''X'') (Some 8))) = Settled (failure ''Send failed'') \<and>
   deliveryCallbacks (fst (sendSMS sender_awaiting_X (example_env (PublishThrows ''Send failed''))
       ''+15551234567'' ''Again'' (Some ''X'') (Some 8))) = Map.empty \<and>
   deliveryCallbacks sender_awaiting_X \<noteq>
     deliveryCallbacks (fst (sendSMS sender_awaiting_X
       (example_env (PublishThrows ''Send failed'')) ''+15551234567'' ''Again'' (Some ''X'')
       (Some 8)))"
  by (simp add: sendSMS_sender_awaiting_X publish_def example_env_def messageSid_of_def
        sender_awaiting_X_fields Let_def)

subsection \<open>The reconnect bound\<close>

lemma gave_up_step:
  "gave_up st \<Longrightarrow> internal_step st e = (st', ev) \<Longrightarrow>
     ev = [] \<and> gave_up st' \<and> getStatus st' = getStatus st"
  by (cases e)
     (auto simp: gave_up_def fireReconnectTimer_def handleDisconnect_def scheduleReconnect_def
        getStatus_def split: if_splits)

text \<open>Once the sender has given up, nothing it does by itself schedules or connects.\<close>

lemma gave_up_run:
  "gave_up st \<Longrightarrow> run_internal st es = (st', ev) \<Longrightarrow>
     ev = [] \<and> getStatus st' = getStatus st"
proof (induction es arbitrary: st st' ev)
  case Nil
  then show ?case by simp
next
  case (Cons e es)
  obtain st1 ev1 where 1: "internal_step st e = (st1, ev1)"
    by (cases "internal_step st e") auto
  obtain st2 ev2 where 2: "run_internal st1 es = (st2, ev2)"
    by (cases "run_internal st1 es") auto
  from gave_up_step[OF Cons.prems(1) 1]
  have a: "ev1 = []" "gave_up st1" "getStatus st1 = getStatus st" by auto
  from Cons.IH[OF a(2) 2] have b: "ev2 = []" "getStatus st2 = getStatus st1" by auto
  from Cons.prems(2) 1 2 have "st' = st2 \<and> ev = ev1 @ ev2" by simp
  with a b show ?case by simp
qed

lemma attempted_counts:
  "scheduled_reconnects (attempted c g) = 0" "connect_attempts (attempted c g) = 1"
  by (cases g; simp add: attempted_def connect_calls_def scheduled_reconnects_def
        connect_attempts_def)+

lemma counts_append:
  "scheduled_reconnects (xs @ ys) = scheduled_reconnects xs + scheduled_reconnects ys"
  "connect_attempts (xs @ ys) = connect_attempts xs + connect_attempts ys"
  by (simp_all add: scheduled_reconnects_def connect_attempts_def)

lemma counts_timer:
  "scheduled_reconnects [SetTimeout d ReconnectTimer] = 1"
  "connect_attempts [SetTimeout d ReconnectTimer] = 0"
  "scheduled_reconnects [] = 0" "connect_attempts [] = 0"
  by (simp_all add: scheduled_reconnects_def connect_attempts_def)

text \<open>
  C3, as amended: take a sender constructed with maxReconnectAttempts = 2 and a broker
  that fails every connection attempt (at whatever stage, with whatever message). The
  first \<open>connect()\<close> rejects and schedules one reconnect; the timer fires, the attempt
  fails and a second reconnect is scheduled; that timer fires, the attempt fails and
  nothing is scheduled. That makes exactly 2 scheduled reconnects (and 3 connection
  attempts). Then no timer is pending, and whatever the sender does by itself afterwards
  (timer firings, connection events), in any number and order, produces no event at all:
  no further attempt is scheduled or made until a caller acts. \<open>getStatus()\<close> is a read
  of the three fields: it reads reconnectAttempts 0 at first, 1 after the first failure
  and, disconnected, 2 after the stop and from then on; it reads the very same while the
  second reconnect is still pending, so the reading shows the bound reached, not the
  stop itself. A later \<open>connect()\<close> by a caller that succeeds reads connected, 0.
\<close>

theorem reconnect_bound:
  "(let s0 = new_RabbitMQSender (cfg \<lparr> maxReconnectAttempts := Some 2 \<rparr>);
        (s1, r1, e1) = connect s0 (ConnectFails g1 m1);
        (s2, e2) = internal_step s1 (TimerFires (ConnectFails g2 m2));
        (s3, e3) = internal_step s2 (TimerFires (ConnectFails g3 m3));
        (s4, e4) = run_internal s3 evs
    in r1 = Inl (''Failed to connect to RabbitMQ: '' @ m1) \<and>
       scheduled_reconnects e1 = 1 \<and> scheduled_reconnects e2 = 1 \<and>
       scheduled_reconnects e3 = 0 \<and>
       scheduled_reconnects (e1 @ e2 @ e3 @ e4) = 2 \<and>
       connect_attempts e1 = 1 \<and> connect_attempts e2 = 1 \<and> connect_attempts e3 = 1 \<and>
       connect_attempts (e1 @ e2 @ e3 @ e4) = 3 \<and>
       reconnectTimer s1 \<and> reconnectTimer s2 \<and> \<not> reconnectTimer s3 \<and>
       e4 = [] \<and>
       getStatus s0 =
         \<lparr> connected = False, statusReconnectAttempts = 0, pendingCallbacks = 0 \<rparr> \<and>
       getStatus s1 =
         \<lparr> connected = False, statusReconnectAttempts = 1, pendingCallbacks = 0 \<rparr> \<and>
       getStatus s2 =
         \<lparr> connected = False, statusReconnectAttempts = 2, pendingCallbacks = 0 \<rparr> \<and>
       getStatus s3 =
         \<lparr> connected = False, statusReconnectAttempts = 2, pendingCallbacks = 0 \<rparr> \<and>
       getStatus s2 = getStatus s3 \<and>
       getStatus s4 = getStatus s3 \<and>
       getStatus (fst (connect s3 ConnectSucceeds)) =
         \<lparr> connected = True, statusReconnectAttempts = 0, pendingCallbacks = 0 \<rparr> \<and>
       getStatus st =
         \<lparr> connected = isConnected st, statusReconnectAttempts = reconnectAttempts st,
           pendingCallbacks = card (dom (deliveryCallbacks st)) \<rparr>)"
proof -
  define s0 where "s0 = new_RabbitMQSender (cfg \<lparr> maxReconnectAttempts := Some 2 \<rparr>)"
  obtain s1 r1 e1 where c1: "connect s0 (ConnectFails g1 m1) = (s1, r1, e1)"
    by (cases "connect s0 (ConnectFails g1 m1)") auto
  obtain s2 e2 where c2: "internal_step s1 (TimerFires (ConnectFails g2 m2)) = (s2, e2)"
    by (cases "internal_step s1 (TimerFires (ConnectFails g2 m2))") auto
  obtain s3 e3 where c3: "internal_step s2 (TimerFires (ConnectFails g3 m3)) = (s3, e3)"
    by (cases "internal_step s2 (TimerFires (ConnectFails g3 m3))") auto
  obtain s4 e4 where c4: "run_internal s3 evs = (s4, e4)"
    by (cases "run_internal s3 evs") auto
  from c1 have f1: "r1 = Inl (''Failed to connect to RabbitMQ: '' @ m1)"
      "scheduled_reconnects e1 = 1" "connect_attempts e1 = 1"
      "reconnectTimer s1" "\<not> isConnected s1" "\<not> isConnecting s1" "reconnectAttempts s1 = 1"
      "maxReconnectAttempts (config s1) = Some 2" "deliveryCallbacks s1 = Map.empty"
    by (auto simp: s0_def new_RabbitMQSender_def connect_def scheduleReconnect_def
          or_default_def counts_append attempted_counts counts_timer Let_def)
  from c2 f1 have f2: "scheduled_reconnects e2 = 1" "connect_attempts e2 = 1"
      "reconnectTimer s2" "\<not> isConnected s2" "\<not> isConnecting s2" "reconnectAttempts s2 = 2"
      "maxReconnectAttempts (config s2) = Some 2" "deliveryCallbacks s2 = Map.empty"
    by (auto simp: fireReconnectTimer_def connect_def scheduleReconnect_def or_default_def
          counts_append attempted_counts counts_timer Let_def)
  from c3 f2 have f3: "scheduled_reconnects e3 = 0" "connect_attempts e3 = 1"
      "\<not> reconnectTimer s3" "\<not> isConnected s3" "\<not> isConnecting s3"
      "reconnectAttempts s3 = 2"
      "maxReconnectAttempts (config s3) = Some 2" "deliveryCallbacks s3 = Map.empty"
    by (auto simp: fireReconnectTimer_def connect_def scheduleReconnect_def or_default_def
          counts_append attempted_counts counts_timer Let_def)
  from f3 have g: "gave_up s3"
    by (simp add: gave_up_def or_default_def)
  from gave_up_run[OF g c4] have f4: "e4 = []" "getStatus s4 = getStatus s3" by auto
  from f3 have st3: "getStatus s3 =
      \<lparr> connected = False, statusReconnectAttempts = 2, pendingCallbacks = 0 \<rparr>"
    by (simp add: getStatus_def)
  from f2 have st2: "getStatus s2 =
      \<lparr> connected = False, statusReconnectAttempts = 2, pendingCallbacks = 0 \<rparr>"
    by (simp add: getStatus_def)
  from f1 have st1: "getStatus s1 =
      \<lparr> connected = False, statusReconnectAttempts = 1, pendingCallbacks = 0 \<rparr>"
    by (simp add: getStatus_def)
  have st0: "getStatus s0 =
      \<lparr> connected = False, statusReconnectAttempts = 0, pendingCallbacks = 0 \<rparr>"
    by (simp add: getStatus_def s0_def new_RabbitMQSender_def)
  from f3 have st5: "getStatus (fst (connect s3 ConnectSucceeds)) =
      \<lparr> connected = True, statusReconnectAttempts = 0, pendingCallbacks = 0 \<rparr>"
    by (simp add: getStatus_def connect_def)
  have rd: "getStatus st =
      \<lparr> connected = isConnected st, statusReconnectAttempts = reconnectAttempts st,
        pendingCallbacks = card (dom (deliveryCallbacks st)) \<rparr>"
    by (simp add: getStatus_def)
  show ?thesis
    unfolding Let_def s0_def[symmetric]
    by (simp add: c1 c2 c3 c4 f1 f2 f3 f4 st0 st1 st2 st3 st5 rd counts_append counts_timer
          del: internal_step.simps)
qed

text \<open>
  C3 as stated fails in its last part: the stop cannot be read off \<open>getStatus()\<close>. The
  sender with its second reconnect pending and the sender that has stopped give the same
  reading, yet the first still has its timer, makes one more connection attempt when it
  fires, and is connected again if the broker then accepts; the second does nothing.
\<close>

theorem reconnect_bound_counterexample:
  "getStatus sender_retrying = getStatus sender_stopped \<and>
   reconnectTimer sender_retrying \<and> \<not> gave_up sender_retrying \<and>
   connect_attempts (snd (internal_step sender_retrying (TimerFires refused))) = 1 \<and>
   connected (getStatus (fst (internal_step sender_retrying (TimerFires ConnectSucceeds)))) \<and>
   gave_up sender_stopped \<and> \<not> reconnectTimer sender_stopped \<and>
   internal_step sender_stopped (TimerFires ConnectSucceeds) = (sender_stopped, [])"
proof -
  have r: "reconnectTimer sender_retrying" "\<not> isConnected sender_retrying"
    "\<not> isConnecting sender_retrying" "reconnectAttempts sender_retrying = 2"
    "maxReconnectAttempts (config sender_retrying) = Some 2"
    "deliveryCallbacks sender_retrying = Map.empty"
    by (simp_all add: sender_retrying_def refused_def example_config_def new_RabbitMQSender_def
          connect_def scheduleReconnect_def fireReconnectTimer_def or_default_def Let_def)
  from r have t: "\<not> reconnectTimer sender_stopped" "\<not> isConnected sender_stopped"
    "reconnectAttempts sender_stopped = 2"
    "maxReconnectAttempts (config sender_stopped) = Some 2"
    "deliveryCallbacks sender_stopped = Map.empty"
    "connect_attempts (snd (internal_step sender_retrying (TimerFires refused))) = 1"
    by (simp_all add: sender_stopped_def refused_def connect_def scheduleReconnect_def
          fireReconnectTimer_def or_default_def Let_def attempted_counts counts_append counts_timer)
  from r have u:
    "connected (getStatus (fst (internal_step sender_retrying (TimerFires ConnectSucceeds))))"
    by (simp add: connect_def fireReconnectTimer_def getStatus_def)
  from t have v: "internal_step sender_stopped (TimerFires ConnectSucceeds) = (sender_stopped, [])"
    by (simp add: fireReconnectTimer_def)
  from r t have w: "getStatus sender_retrying = getStatus sender_stopped"
    "\<not> gave_up sender_retrying" "gave_up sender_stopped"
    by (simp_all add: getStatus_def gave_up_def or_default_def)
  from r t u v w show ?thesis
    by blast
qed

subsection \<open>Delivery receipts\<close>

text \<open>
  C5, as amended: for every message consumed from the callback queue: if the body
  parses as a receipt and a callback is registered under its sid, that callback is
  invoked exactly once with the receipt; when the invocation returns, the removal timer
  is set and the message acknowledged, and when it throws, the message is negatively
  acknowledged with requeue instead. If no callback is registered under the sid, the
  message is acknowledged and nothing else happens; if parsing fails, the message is
  negatively acknowledged with requeue. Every acknowledgement, positive or negative,
  goes through the sender's channel field and is sent only while that field is assigned.
\<close>

theorem receipt_handling:
  "(json_parse env (msg_content msg) = Some v \<and> is_receipt v s \<and>
    deliveryCallbacks st s = Some cb \<longrightarrow>
      filter is_invocation (onReceiptMessage st env (Some msg)) = [InvokeCallback cb v]) \<and>
   (json_parse env (msg_content msg) = Some v \<and> is_receipt v s \<and>
    deliveryCallbacks st s = Some cb \<and> callback_returns env cb v \<longrightarrow>
      onReceiptMessage st env (Some msg) =
        [InvokeCallback cb v, SetTimeout 60000 (ReceiptCleanup s)] @
        (if channel st then [Ack msg] else [])) \<and>
   (json_parse env (msg_content msg) = Some v \<and> is_receipt v s \<and>
    deliveryCallbacks st s = Some cb \<and> \<not> callback_returns env cb v \<longrightarrow>
      onReceiptMessage st env (Some msg) =
        [InvokeCallback cb v] @ (if channel st then [Nack msg False True] else [])) \<and>
   (json_parse env (msg_content msg) = Some v \<and> is_receipt v s \<and>
    deliveryCallbacks st s = None \<longrightarrow>
      onReceiptMessage st env (Some msg) = (if channel st then [Ack msg] else [])) \<and>
   (json_parse env (msg_content msg) = None \<longrightarrow>
      onReceiptMessage st env (Some msg) = (if channel st then [Nack msg False True] else []))"
  by (cases v) (auto simp: onReceiptMessage_def is_receipt_def ack_def nack_def)

lemma example_receipts:
  "example_parse ''receipt for X'' = Some (delivered_receipt ''X'')"
  "example_parse ''receipt for Y'' = Some (delivered_receipt ''Y'')"
  "example_parse ''invalid json'' = None"
  "is_receipt (delivered_receipt ''X'') ''X''"
  "is_receipt (delivered_receipt ''Y'') ''Y''"
  "get_sid (delivered_receipt s) = Prop (JStr s)"
  by (simp_all add: example_parse_def delivered_receipt_def is_receipt_def)

lemma example_receipt_env_fields:
  "json_parse (example_receipt_env b) = example_parse"
  "callback_returns (example_receipt_env b) cb v = b"
  by (simp_all add: example_receipt_env_def)

lemma sender_without_channel_fields:
  "\<not> channel sender_without_channel"
  "deliveryCallbacks sender_without_channel = [''X'' \<mapsto> 7]"
  by (simp_all add: sender_without_channel_def handleDisconnect_def scheduleReconnect_def
        sender_awaiting_X_fields)

theorem receipt_handling_witness:
  "channel sender_awaiting_X \<and>
   deliveryCallbacks sender_awaiting_X ''X'' = Some 7 \<and>
   deliveryCallbacks sender_awaiting_X ''Y'' = None \<and>
   onReceiptMessage sender_awaiting_X (example_receipt_env True)
       (Some (broker_message ''receipt for X'')) =
     [InvokeCallback 7 (delivered_receipt ''X''), SetTimeout 60000 (ReceiptCleanup ''X''),
      Ack (broker_message ''receipt for X'')] \<and>
   onReceiptMessage sender_awaiting_X (example_receipt_env False)
       (Some (broker_message ''receipt for X'')) =
     [InvokeCallback 7 (delivered_receipt ''X''),
      Nack (broker_message ''receipt for X'') False True] \<and>
   filter is_invocation (onReceiptMessage sender_awaiting_X (example_receipt_env False)
       (Some (broker_message ''receipt for X''))) =
     [InvokeCallback 7 (delivered_receipt ''X'')] \<and>
   onReceiptMessage sender_awaiting_X (example_receipt_env True)
       (Some (broker_message ''receipt for Y'')) =
     [Ack (broker_message ''receipt for Y'')] \<and>
   onReceiptMessage sender_awaiting_X (example_receipt_env True)
       (Some (broker_message ''invalid json'')) =
     [Nack (broker_message ''invalid json'') False True]"
  using
    receipt_handling[of "example_receipt_env True"
      "broker_message ''receipt for X''" "delivered_receipt ''X''" "''X''" sender_awaiting_X 7]
    receipt_handling[of "example_receipt_env False"
      "broker_message ''receipt for X''" "delivered_receipt ''X''" "''X''" sender_awaiting_X 7]
    receipt_handling[of "example_receipt_env True"
      "broker_message ''receipt for Y''" "delivered_receipt ''Y''" "''Y''" sender_awaiting_X 7]
    receipt_handling[of "example_receipt_env True"
      "broker_message ''invalid json''" "delivered_receipt ''X''" "''X''" sender_awaiting_X 7]
  by (simp add: sender_awaiting_X_fields example_receipts example_receipt_env_fields
        broker_message_def)

text \<open>
  C5 as stated fails: a registered callback does not always lead to an acknowledgement.
  First, the callback under X is invoked with the receipt and throws; the handler's
  catch then negatively acknowledges the message with requeue, and no acknowledgement is
  sent. Second, the sender's connection has emitted an error, which cleared the channel
  field while the callback stays registered; the callback is invoked and returns, and no
  acknowledgement is sent.
\<close>

theorem receipt_handling_counterexample:
  "channel sender_awaiting_X \<and>
   json_parse (example_receipt_env False) (msg_content (broker_message ''receipt for X'')) =
     Some (delivered_receipt ''X'') \<and>
   is_receipt (delivered_receipt ''X'') ''X'' \<and>
   deliveryCallbacks sender_awaiting_X ''X'' = Some 7 \<and>
   onReceiptMessage sender_awaiting_X (example_receipt_env False)
       (Some (broker_message ''receipt for X'')) =
     [InvokeCallback 7 (delivered_receipt ''X''),
      Nack (broker_message ''receipt for X'') False True] \<and>
   Ack (broker_message ''receipt for X'') \<notin>
     set (onReceiptMessage sender_awaiting_X (example_receipt_env False)
       (Some (broker_message ''receipt for X''))) \<and>
   deliveryCallbacks sender_without_channel ''X'' = Some 7 \<and>
   onReceiptMessage sender_without_channel (example_receipt_env True)
       (Some (broker_message ''receipt for X'')) =
     [InvokeCallback 7 (delivered_receipt ''X''), SetTimeout 60000 (ReceiptCleanup ''X'')] \<and>
   Ack (broker_message ''receipt for X'') \<notin>
     set (onReceiptMessage sender_without_channel (example_receipt_env True)
       (Some (broker_message ''receipt for X'')))"
  by (simp add: onReceiptMessage_def sender_awaiting_X_fields sender_without_channel_fields
        example_receipts example_receipt_env_fields broker_message_def nack_def ack_def)

subsection \<open>Shutdown\<close>

text \<open>
  What \<open>close()\<close> does from every state: its promise resolves and the registry is
  emptied.
\<close>

lemma close_always:
  "close st env = (st', r, ev) \<Longrightarrow>
     r = Inr () \<and> deliveryCallbacks st' = Map.empty \<and> pendingCallbacks (getStatus st') = 0"
  by (auto simp: close_def close_connection_def handleDisconnect_def scheduleReconnect_def
        getStatus_def Let_def split: if_splits close_outcome.splits)

text \<open>
  When neither \<open>close\<close> call of the client rejects, the channel and the connection are
  closed and the sender is disconnected, from every state.
\<close>

lemma close_clean:
  "channelClose env = CloseResolves \<Longrightarrow> connectionClose env = CloseResolves \<Longrightarrow>
   close st env = (st', r, ev) \<Longrightarrow>
     \<not> channel st' \<and> \<not> connectionModel st' \<and> \<not> isConnected st' \<and>
     \<not> connected (getStatus st') \<and>
     (channel st \<longrightarrow> ChannelClose \<in> set ev) \<and>
     (connectionModel st \<longrightarrow> ConnectionClose \<in> set ev)"
  by (auto simp: close_def close_connection_def handleDisconnect_def scheduleReconnect_def
        getStatus_def Let_def split: if_splits)

text \<open>
  But the timer \<open>close()\<close> cancelled is armed again by the listener of the connection's
  close event, as long as the attempt counter is below the bound: after a clean
  \<open>close()\<close> of a sender that held a connection, a reconnect is pending.
\<close>

lemma close_rearms_reconnect:
  "channelClose env = CloseResolves \<Longrightarrow> connectionClose env = CloseResolves \<Longrightarrow>
   connectionModel st \<Longrightarrow>
   reconnectAttempts st < or_default (maxReconnectAttempts (config st)) 10 \<Longrightarrow>
   close st env = (st', r, ev) \<Longrightarrow>
     reconnectTimer st' \<and> scheduled_reconnects ev = 1"
  by (auto simp: close_def close_connection_def handleDisconnect_def scheduleReconnect_def
        scheduled_reconnects_def Let_def split: if_splits)

text \<open>
  C6 does not hold of the code. On a connected sender whose \<open>channel.close()\<close> rejects
  (a channel the broker already closed does), \<open>close()\<close> resolves, but the catch has
  skipped the rest of the try block: the connection is not closed, the channel and the
  connection stay assigned, and the sender still counts as connected and ready. A second
  \<open>close()\<close> meeting the same rejection changes nothing.
\<close>

theorem close_keeps_connected_on_channel_error:
  "close ready_sender
       \<lparr> channelClose = CloseRejects ''Channel closed'', connectionClose = CloseResolves \<rparr> =
     (ready_sender, Inr (), [ChannelClose]) \<and>
   connected (getStatus ready_sender) \<and> isReady ready_sender \<and>
   channel ready_sender \<and> connectionModel ready_sender \<and>
   ConnectionClose \<notin> set [ChannelClose]"
  by (simp add: ready_sender_def example_config_def connect_def new_RabbitMQSender_def
        close_def getStatus_def isReady_def)

section \<open>Properties of the routing handler\<close>

subsection \<open>The rule list\<close>

text \<open>
  Whatever \<open>addRule\<close> and \<open>resetRules\<close> have done, the list is the four keyword
  rules, then the custom rules, then the catch-all.
\<close>

lemma handler_rules_shape:
  "handler_rules rules \<Longrightarrow>
     \<exists>custom. rules = [urgentRule, importantRule, questionRule, spamRule] @ custom @ [catchAllRule]"
proof (induction rule: handler_rules.induct)
  case constructed
  show ?case by (simp add: initializeDefaultRules_def)
next
  case (added rules rule)
  then obtain custom where
    r: "rules = [urgentRule, importantRule, questionRule, spamRule] @ custom @ [catchAllRule]"
    by blast
  have "addRule rule rules =
          [urgentRule, importantRule, questionRule, spamRule] @ (custom @ [rule]) @ [catchAllRule]"
    by (simp add: r addRule_def butlast_append)
  then show ?case by blast
next
  case (reset rules)
  show ?case by (simp add: resetRules_def initializeDefaultRules_def)
qed

lemma firstMatch_catchAll:
  "\<exists>rule. firstMatch (xs @ [catchAllRule]) message = Some rule \<and>
     rule \<in> set (xs @ [catchAllRule]) \<and> condition rule message"
  by (induction xs) (auto simp: catchAllRule_def)

lemma firstMatch_none_before:
  "list_all (\<lambda>r. \<not> condition r message) xs \<Longrightarrow>
     firstMatch (xs @ [catchAllRule]) message = Some catchAllRule"
  by (induction xs) (auto simp: catchAllRule_def)

text \<open>
  C1: for every incoming message and every rule list a handler can hold, the loop of
  \<open>findMatchingRule\<close> returns a rule of the list whose condition holds, so the function
  yields its decision and the fallback after the loop is never needed. The reason is the
  last rule, which is always the catch-all: its condition holds of every message and its
  decision is priority normal, action queue, which is also what comes out when no
  earlier rule matches. (Conditions are predicates: nothing in rule evaluation throws.)
\<close>

theorem findMatchingRule_total:
  "handler_rules rules \<Longrightarrow>
     (\<exists>rule. firstMatch rules message = Some rule \<and> findMatchingRule rules message = rule \<and>
        rule \<in> set rules \<and> condition rule message) \<and>
     rules \<noteq> [] \<and> last rules = catchAllRule \<and>
     condition (last rules) message \<and> priority (last rules) = Normal \<and>
     action (last rules) = Queue \<and>
     (list_all (\<lambda>r. \<not> condition r message) (butlast rules) \<longrightarrow>
        priority (findMatchingRule rules message) = Normal \<and>
        action (findMatchingRule rules message) = Queue)"
proof -
  assume "handler_rules rules"
  from handler_rules_shape[OF this] obtain custom where
    r: "rules = ([urgentRule, importantRule, questionRule, spamRule] @ custom) @ [catchAllRule]"
    by auto
  from firstMatch_catchAll[of "[urgentRule, importantRule, questionRule, spamRule] @ custom" message]
  obtain rule where
    m: "firstMatch rules message = Some rule" "rule \<in> set rules" "condition rule message"
    unfolding r by blast
  have l: "last rules = catchAllRule" "rules \<noteq> []"
    "butlast rules = [urgentRule, importantRule, questionRule, spamRule] @ custom"
    unfolding r by simp_all
  have n: "list_all (\<lambda>r. \<not> condition r message) (butlast rules) \<longrightarrow>
      findMatchingRule rules message = catchAllRule"
    using firstMatch_none_before[of message "butlast rules"] l r
    by (auto simp: findMatchingRule_def)
  from m l n show ?thesis
    by (auto simp: findMatchingRule_def catchAllRule_def)
qed

lemma lower_plain: "toLowerCase ''See you at noon'' = ''see you at noon''"
  by (simp add: toLowerCase_def toLowerChar_def upper_letters_def lower_letters_def)

lemma plain_conditions:
  "\<not> condition urgentRule (example_message ''See you at noon'')"
  "\<not> condition importantRule (example_message ''See you at noon'')"
  "\<not> condition questionRule (example_message ''See you at noon'')"
  "\<not> condition spamRule (example_message ''See you at noon'')"
  by (simp_all add: urgentRule_def importantRule_def questionRule_def spamRule_def
        example_message_def lower_plain trim_def isWhiteSpace_def endsWith_def startsWith_def
        suffix_def)

theorem findMatchingRule_total_witness:
  "handler_rules initializeDefaultRules \<and>
   list_all (\<lambda>r. \<not> condition r (example_message ''See you at noon''))
     (butlast initializeDefaultRules) \<and>
   firstMatch initializeDefaultRules (example_message ''See you at noon'') \<noteq> None \<and>
   priority (findMatchingRule initializeDefaultRules (example_message ''See you at noon'')) =
     Normal \<and>
   action (findMatchingRule initializeDefaultRules (example_message ''See you at noon'')) =
     Queue"
proof -
  have b: "list_all (\<lambda>r. \<not> condition r (example_message ''See you at noon''))
      (butlast initializeDefaultRules)"
    by (simp add: initializeDefaultRules_def plain_conditions)
  from findMatchingRule_total[OF handler_rules.constructed,
      of "example_message ''See you at noon''"] b
  show ?thesis
    using handler_rules.constructed by auto
qed

subsection \<open>The store under process\<close>

lemma wf_queue_empty: "wf_queue empty_queue"
  by (simp add: wf_queue_def empty_queue_def)

lemma wf_queue_addToQueue:
  "wf_queue qm \<Longrightarrow> wf_queue (fst (addToQueue qm message prio act sender metadata now))"
  by (auto simp: wf_queue_def addToQueue_def Let_def list_all_iff)

lemma wf_queue_updateStatus:
  "wf_queue qm \<Longrightarrow> updateStatus qm rowId st = Inr qm' \<Longrightarrow> wf_queue qm'"
  by (auto simp: wf_queue_def updateStatus_def list_all_iff split: if_splits)

lemma updateStatus_new_row:
  assumes "wf_queue qm" and "m_id row = lastRowid qm + 1"
  shows "updateStatus (qm \<lparr> rows := rows qm @ [row], lastRowid := lastRowid qm + 1 \<rparr>)
           (lastRowid qm + 1) st =
         Inr (qm \<lparr> rows := rows qm @ [row \<lparr> m_status := st \<rparr>],
                   lastRowid := lastRowid qm + 1 \<rparr>)"
proof -
  have "map (\<lambda>r. if m_id r = lastRowid qm + 1 then r \<lparr> m_status := st \<rparr> else r) (rows qm) =
      rows qm"
    using assms(1) by (auto simp: wf_queue_def list_all_iff intro!: map_idI)
  with assms(2) show ?thesis
    by (simp add: updateStatus_def)
qed

lemma find_after: "find P xs = None \<Longrightarrow> find P (xs @ ys) = find P ys"
  by (induction xs) (auto split: if_splits)

lemma getMessage_new_row:
  assumes "wf_queue qm" and "m_id row = lastRowid qm + 1"
  shows "getMessage (qm \<lparr> rows := rows qm @ [row], lastRowid := lastRowid qm + 1 \<rparr>)
           (lastRowid qm + 1) = Some row"
proof -
  have "find (\<lambda>r. m_id r = lastRowid qm + 1) (rows qm) = None"
    using assms(1) by (auto simp: wf_queue_def list_all_iff find_None_iff)
  with assms(2) show ?thesis
    by (simp add: getMessage_def find_after)
qed

lemma lower_spam: "toLowerCase ''Free prize! Click here!'' = ''free prize! click here!''"
  by (simp add: toLowerCase_def toLowerChar_def upper_letters_def lower_letters_def)

lemma spam_conditions:
  assumes "in_content message = ''Free prize! Click here!''"
  shows "\<not> condition urgentRule message" "\<not> condition importantRule message"
    "\<not> condition questionRule message" "condition spamRule message"
  using assms
  by (simp_all add: urgentRule_def importantRule_def questionRule_def spamRule_def lower_spam
        trim_def isWhiteSpace_def endsWith_def startsWith_def suffix_def)

text \<open>
  C9: for a message whose content is "Free prize! Click here!", whatever rules have been
  added, the decision is priority low, action ignore, and \<open>process\<close> returns it with the
  new row's id and no error. Its calls on the store are the insert and one status update
  to resolved, nothing else: the row is inserted as pending, then marked resolved, and is
  never marked processing. Afterwards the row stored for the message has status resolved.
\<close>

theorem spam_is_ignored_and_resolved:
  "handler_rules rules \<and> in_content message = ''Free prize! Click here!'' \<and> wf_queue qm \<longrightarrow>
     (let rowId = lastRowid qm + 1;
          row = \<lparr> m_id = rowId, m_sender = in_sender message, m_content = in_content message,
                  m_priority = Low, m_status = Pending, m_timestamp = now_inserted env,
                  m_routing_action = Ignore,
                  m_metadata = Some (process_metadata message (now_processed env)) \<rparr>;
          qm1 = qm \<lparr> rows := rows qm @ [row], lastRowid := rowId \<rparr>;
          qm2 = qm \<lparr> rows := rows qm @ [row \<lparr> m_status := Resolved \<rparr>], lastRowid := rowId \<rparr>
      in priority (findMatchingRule rules message) = Low \<and>
         action (findMatchingRule rules message) = Ignore \<and>
         process rules qm env message =
           (qm2,
            \<lparr> pr_messageId = rowId, pr_action = Ignore, pr_priority = Low, notified = False,
              responded = False, pr_error = None \<rparr>,
            [AddToQueue rowId, UpdateStatus rowId Resolved]) \<and>
         addToQueue qm (in_content message) Low Ignore (in_sender message)
           (Some (process_metadata message (now_processed env))) (now_inserted env) =
           (qm1, rowId) \<and>
         getMessage qm1 rowId = Some row \<and>
         markResolved qm1 rowId = Inr qm2 \<and>
         getMessage qm2 rowId = Some (row \<lparr> m_status := Resolved \<rparr>))"
proof (intro impI, elim conjE)
  assume h: "handler_rules rules" and c: "in_content message = ''Free prize! Click here!''"
    and w: "wf_queue qm"
  from handler_rules_shape[OF h] obtain custom where
    r: "rules = [urgentRule, importantRule, questionRule, spamRule] @ custom @ [catchAllRule]"
    by blast
  have f: "findMatchingRule rules message = spamRule"
    by (simp add: r findMatchingRule_def spam_conditions[OF c])
  have pa: "priority spamRule = Low" "action spamRule = Ignore"
    by (simp_all add: spamRule_def)
  define row where "row =
      \<lparr> m_id = lastRowid qm + 1, m_sender = in_sender message, m_content = in_content message,
        m_priority = Low, m_status = Pending, m_timestamp = now_inserted env,
        m_routing_action = Ignore,
        m_metadata = Some (process_metadata message (now_processed env)) \<rparr>"
  have id: "m_id row = lastRowid qm + 1"
    by (simp add: row_def)
  have a: "addToQueue qm (in_content message) Low Ignore (in_sender message)
           (Some (process_metadata message (now_processed env))) (now_inserted env) =
           (qm \<lparr> rows := rows qm @ [row], lastRowid := lastRowid qm + 1 \<rparr>, lastRowid qm + 1)"
    by (simp add: addToQueue_def row_def Let_def)
  note u = updateStatus_new_row[OF w id, of Resolved]
  have p: "process rules qm env message =
           (qm \<lparr> rows := rows qm @ [row \<lparr> m_status := Resolved \<rparr>],
                 lastRowid := lastRowid qm + 1 \<rparr>,
            \<lparr> pr_messageId = lastRowid qm + 1, pr_action = Ignore, pr_priority = Low,
              notified = False, responded = False, pr_error = None \<rparr>,
            [AddToQueue (lastRowid qm + 1), UpdateStatus (lastRowid qm + 1) Resolved])"
    by (simp add: process_def f pa a u markResolved_def)
  have g2: "getMessage (qm \<lparr> rows := rows qm @ [row \<lparr> m_status := Resolved \<rparr>],
                             lastRowid := lastRowid qm + 1 \<rparr>) (lastRowid qm + 1) =
            Some (row \<lparr> m_status := Resolved \<rparr>)"
    using getMessage_new_row[OF w, of "row \<lparr> m_status := Resolved \<rparr>"] id by simp
  show "(let rowId = lastRowid qm + 1;
          row = \<lparr> m_id = rowId, m_sender = in_sender message, m_content = in_content message,
                  m_priority = Low, m_status = Pending, m_timestamp = now_inserted env,
                  m_routing_action = Ignore,
                  m_metadata = Some (process_metadata message (now_processed env)) \<rparr>;
          qm1 = qm \<lparr> rows := rows qm @ [row], lastRowid := rowId \<rparr>;
          qm2 = qm \<lparr> rows := rows qm @ [row \<lparr> m_status := Resolved \<rparr>], lastRowid := rowId \<rparr>
      in priority (findMatchingRule rules message) = Low \<and>
         action (findMatchingRule rules message) = Ignore \<and>
         process rules qm env message =
           (qm2,
            \<lparr> pr_messageId = rowId, pr_action = Ignore, pr_priority = Low, notified = False,
              responded = False, pr_error = None \<rparr>,
            [AddToQueue rowId, UpdateStatus rowId Resolved]) \<and>
         addToQueue qm (in_content message) Low Ignore (in_sender message)
           (Some (process_metadata message (now_processed env))) (now_inserted env) =
           (qm1, rowId) \<and>
         getMessage qm1 rowId = Some row \<and>
         markResolved qm1 rowId = Inr qm2 \<and>
         getMessage qm2 rowId = Some (row \<lparr> m_status := Resolved \<rparr>))"
    unfolding Let_def row_def[symmetric]
    using f pa p a u g2 getMessage_new_row[OF w id]
    by (simp add: markResolved_def)
qed

theorem spam_is_ignored_and_resolved_witness:
  "handler_rules initializeDefaultRules \<and>
   in_content (example_message ''Free prize! Click here!'') = ''Free prize! Click here!'' \<and>
   wf_queue empty_queue \<and>
   fst (snd (process initializeDefaultRules empty_queue example_process_env
       (example_message ''Free prize! Click here!''))) =
     \<lparr> pr_messageId = 1, pr_action = Ignore, pr_priority = Low, notified = False,
       responded = False, pr_error = None \<rparr> \<and>
   snd (snd (process initializeDefaultRules empty_queue example_process_env
       (example_message ''Free prize! Click here!''))) =
     [AddToQueue 1, UpdateStatus 1 Resolved] \<and>
   map m_status (rows (fst (process initializeDefaultRules empty_queue example_process_env
       (example_message ''Free prize! Click here!'')))) = [Resolved]"
proof -
  have c: "in_content (example_message ''Free prize! Click here!'') = ''Free prize! Click here!''"
    by (simp add: example_message_def)
  have l: "lastRowid empty_queue = 0" "rows empty_queue = []"
    by (simp_all add: empty_queue_def)
  from spam_is_ignored_and_resolved[of initializeDefaultRules
      "example_message ''Free prize! Click here!''" empty_queue example_process_env]
    handler_rules.constructed c wf_queue_empty
  have "process initializeDefaultRules empty_queue example_process_env
       (example_message ''Free prize! Click here!'') =
     (empty_queue \<lparr> rows := rows empty_queue @
          [\<lparr> m_id = lastRowid empty_queue + 1,
             m_sender = in_sender (example_message ''Free prize! Click here!''),
             m_content = in_content (example_message ''Free prize! Click here!''),
             m_priority = Low, m_status = Pending,
             m_timestamp = now_inserted example_process_env, m_routing_action = Ignore,
             m_metadata = Some (process_metadata (example_message ''Free prize! Click here!'')
               (now_processed example_process_env)) \<rparr> \<lparr> m_status := Resolved \<rparr>],
        lastRowid := lastRowid empty_queue + 1 \<rparr>,
      \<lparr> pr_messageId = lastRowid empty_queue + 1, pr_action = Ignore, pr_priority = Low,
        notified = False, responded = False, pr_error = None \<rparr>,
      [AddToQueue (lastRowid empty_queue + 1), UpdateStatus (lastRowid empty_queue + 1) Resolved])"
    unfolding Let_def by blast
  with handler_rules.constructed c wf_queue_empty l show ?thesis
    by simp
qed

section \<open>Properties of the queue\<close>

subsection \<open>What getQueue returns\<close>

lemma build_query_parts:
  "build_query filters =
     where_clauses filters @ OrderByTimestampDesc #
     (case truthy (f_limit filters) of None \<Rightarrow> [] | Some n \<Rightarrow> [LimitClause n]) @
     (case truthy (f_offset filters) of None \<Rightarrow> [] | Some m \<Rightarrow> [OffsetClause m])"
  by (simp add: build_query_def where_clauses_def truthy_def split: option.splits)

lemma where_clauses_where: "list_all is_where (where_clauses filters)"
  by (simp add: where_clauses_def split: option.splits)

lemma split_where:
  "list_all is_where ws \<Longrightarrow>
     takeWhile is_where (ws @ OrderByTimestampDesc # cs) = ws \<and>
     dropWhile is_where (ws @ OrderByTimestampDesc # cs) = OrderByTimestampDesc # cs"
  by (induction ws) auto

lemma where_clauses_matches:
  "list_all (satisfies r) (where_clauses filters) = matches (effective filters) r"
  by (auto simp: where_clauses_def matches_def effective_def split: option.splits)

text \<open>
  The whole of \<open>getQueue\<close>: a syntax error when an offset in effect comes with no limit
  in effect; a datatype mismatch when a limit or offset in effect is no integer of the
  64-bit range; and otherwise the rows matching the filters in effect, in the order the
  engine gives them for the statement, paged.
\<close>

lemma getQueue_result:
  "getQueue ord qm filters =
     (if truthy (f_offset filters) \<noteq> None \<and> truthy (f_limit filters) = None
      then Inl (RetrieveFailed (SyntaxErrorNear ''OFFSET''))
      else
        (case bound_value (truthy (f_limit filters)) of
           Inl e \<Rightarrow> Inl (RetrieveFailed e)
         | Inr l \<Rightarrow>
             (case bound_value (truthy (f_offset filters)) of
                Inl e \<Rightarrow> Inl (RetrieveFailed e)
              | Inr off \<Rightarrow>
                  Inr (limit_offset l off
                    (ord (build_query filters)
                       (filter (matches (effective filters)) (rows qm)))))))"
proof -
  define lim where "lim = truthy (f_limit filters)"
  define off where "off = truthy (f_offset filters)"
  define paging where "paging =
      (case lim of None \<Rightarrow> [] | Some n \<Rightarrow> [LimitClause n]) @
      (case off of None \<Rightarrow> [] | Some m \<Rightarrow> [OffsetClause m])"
  have q: "build_query filters = where_clauses filters @ OrderByTimestampDesc # paging"
    by (simp add: build_query_parts paging_def lim_def off_def)
  from split_where[OF where_clauses_where, of filters paging]
  have tw: "takeWhile is_where (build_query filters) = where_clauses filters"
    and dw: "dropWhile is_where (build_query filters) = OrderByTimestampDesc # paging"
    by (simp_all add: q)
  have sel: "filter (\<lambda>r. list_all (satisfies r) (where_clauses filters)) (rows qm) =
      filter (matches (effective filters)) (rows qm)"
    by (simp add: where_clauses_matches)
  have run: "sqlite_all ord (rows qm) (build_query filters) =
      (case sqlite_limit paging of
         Inl e \<Rightarrow> Inl e
       | Inr (l, off) \<Rightarrow>
           (case bound_value l of
              Inl e \<Rightarrow> Inl e
            | Inr l' \<Rightarrow>
                (case bound_value off of
                   Inl e \<Rightarrow> Inl e
                 | Inr off' \<Rightarrow>
                     Inr (limit_offset l' off'
                       (ord (build_query filters)
                          (filter (matches (effective filters)) (rows qm)))))))"
    by (simp add: sqlite_all_def tw dw sel Let_def split: sum.splits prod.splits)
  have grammar: "sqlite_limit paging =
      (if off \<noteq> None \<and> lim = None then Inl (SyntaxErrorNear ''OFFSET'') else Inr (lim, off))"
    by (cases lim; cases off) (simp_all add: paging_def)
  show ?thesis
    unfolding getQueue_def run grammar lim_def[symmetric] off_def[symmetric]
    by (simp split: sum.splits)
qed

text \<open>One admissible order: by descending timestamp, the same rows.\<close>

lemma newest_first_sorted:
  "sorted_wrt (\<lambda>a b. m_timestamp a \<ge> m_timestamp b) (newest_first rs) \<and>
   set (newest_first rs) = set rs \<and> length (newest_first rs) = length rs"
  using sorted_sort_key[of "\<lambda>r. - m_timestamp r" rs]
  by (simp add: newest_first_def sorted_map)

text \<open>
  C8 does not hold of the code. With an offset and no limit, \<open>getQueue\<close> appends
  \<open>OFFSET ?\<close> straight after the ORDER BY; SQLite accepts an OFFSET only after a LIMIT and
  rejects the statement, and \<open>getQueue\<close> throws "Failed to retrieve queue", whatever the
  store holds. The claim has every combination of the filters, limit and offset each
  present or absent, return the list of matching messages.
\<close>

theorem getQueue_offset_without_limit:
  "getQueue ord qm (no_filters \<lparr> f_offset := Some (Integer 1) \<rparr>) =
     Inl (RetrieveFailed (SyntaxErrorNear ''OFFSET''))"
  by (simp add: getQueue_def build_query_def no_filters_def sqlite_all_def)


end
